theory Spec2Isabelle
  imports Complex_Main "HOL-Library.Log_Nat"
begin

section \<open>Python values used by the scanner and the credit service\<close>

text \<open>
  Python strings are modelled as \<open>string\<close>; a character stands for a code point below 256.
  Python integers are unbounded and are modelled as \<open>int\<close>.
  A Python exception is a value: \<open>RequestException\<close> stands for \<open>requests.RequestException\<close>
  and its subclasses, \<open>OtherException\<close> for every other subclass of \<open>Exception\<close>.  The
  string is what \<open>str(e)\<close> returns.
\<close>

datatype exn = RequestException string | OtherException string

fun exn_str :: "exn \<Rightarrow> string" where
  "exn_str (RequestException m) = m"
| "exn_str (OtherException m) = m"

text \<open>Truth value of an optional string: \<open>None\<close> and the empty string are false.\<close>

fun truthy :: "string option \<Rightarrow> bool" where
  "truthy None = False"
| "truthy (Some s) = (s \<noteq> [])"

subsection \<open>Double precision arithmetic\<close>

text \<open>
  The overall score is computed with Python floats (IEEE 754 binary64, round to nearest, ties
  to even).  A float is modelled by the rational number it denotes.  \<open>fl q\<close> is the double
  nearest to \<open>q\<close>; the exponent range is not bounded, which agrees with binary64 for every
  magnitude between \<open>2 powi (-1022)\<close> and \<open>2 powi 1024\<close> and for zero.
\<close>

definition round_half_even :: "rat \<Rightarrow> int" where
  "round_half_even x =
     (let f = \<lfloor>x\<rfloor>; r = x - of_int f
      in if r < 1/2 then f else if r > 1/2 then f + 1 else if even f then f else f + 1)"

text \<open>The exponent \<open>e\<close> with \<open>2 powi e \<le> q < 2 powi (e + 1)\<close>, for positive \<open>q\<close>.\<close>

definition binade :: "rat \<Rightarrow> int" where
  "binade q =
     (let (n, d) = quotient_of q; k = bitlen n - bitlen d
      in if 2 powi k \<le> q then k else k - 1)"

definition fl :: "rat \<Rightarrow> rat" where
  "fl q =
     (if q = 0 then 0
      else let u = 2 powi (binade \<bar>q\<bar> - 52)
           in sgn q * of_int (round_half_even (\<bar>q\<bar> / u)) * u)"

text \<open>A decimal literal denotes the nearest double; \<open>*\<close> and \<open>+\<close> round their exact result.\<close>

definition fmul :: "rat \<Rightarrow> rat \<Rightarrow> rat" where
  "fmul x y = fl (x * y)"

definition fadd :: "rat \<Rightarrow> rat \<Rightarrow> rat" where
  "fadd x y = fl (x + y)"

text \<open>\<open>int(x)\<close> of a float truncates towards zero.\<close>

definition py_int_of_float :: "rat \<Rightarrow> int" where
  "py_int_of_float x = (if 0 \<le> x then \<lfloor>x\<rfloor> else \<lceil>x\<rceil>)"

section \<open>The scanner's analysis results (\<open>seo_scanner.py\<close>)\<close>

text \<open>
  The analysis functions return dictionaries with a fixed set of keys; they are records here.
  Since every key is always present, the defaults of \<open>dict.get\<close> are never used.
\<close>

record metadata =
  title :: "string option"
  meta_description :: "string option"
  h1_tags :: "string list"
  canonical_url :: "string option"
  robots_meta :: "string option"

record technical =
  http_status :: int
  has_ssl :: bool
  page_size_kb :: int
  load_time_ms :: int
  is_mobile_friendly :: bool

record content =
  word_count :: int
  heading_counts :: "(string \<times> int) list"

record images =
  image_count :: int
  images_without_alt :: int
  potentially_large_images :: int

record issues =
  critical_issues :: int
  high_issues :: int
  medium_issues :: int
  low_issues :: int
  critical_list :: "string list"
  high_list :: "string list"
  medium_list :: "string list"
  low_list :: "string list"

record links =
  link_count :: int
  internal_links :: int
  external_links :: int

record scores =
  overall_score :: int
  technical_score :: int
  content_score :: int
  performance_score :: int
  accessibility_score :: int

subsection \<open>\<open>SEOScanner._calculate_scores\<close>\<close>

definition technical_points :: "technical \<Rightarrow> int" where
  "technical_points t =
     100 - (if \<not> has_ssl t then 30 else 0)
         - (if http_status t \<noteq> 200 then 25 else 0)
         - (if load_time_ms t > 3000 then 15 else 0)
         - (if \<not> is_mobile_friendly t then 10 else 0)"

definition content_points :: "metadata \<Rightarrow> content \<Rightarrow> int" where
  "content_points m c =
     100 - (if \<not> truthy (title m) then 25 else 0)
         - (if \<not> truthy (meta_description m) then 20 else 0)
         - (if h1_tags m = [] then 20 else if length (h1_tags m) > 1 then 10 else 0)
         - (if word_count c < 300 then 25 else 0)"

definition perf_points :: "technical \<Rightarrow> int" where
  "perf_points t =
     100 - (if load_time_ms t > 5000 then 50
            else if load_time_ms t > 3000 then 30
            else if load_time_ms t > 1000 then 15 else 0)
         - (if page_size_kb t > 3000 then 30
            else if page_size_kb t > 2000 then 20
            else if page_size_kb t > 1000 then 10 else 0)"

definition access_points :: "metadata \<Rightarrow> images \<Rightarrow> int" where
  "access_points m i =
     100 - (if images_without_alt i > 0 then min 40 (images_without_alt i * 5) else 0)
         - (if h1_tags m = [] then 20 else 0)"

text \<open>
  The weighted sum as the source writes it: four products with the literals
  \<open>0.35\<close>, \<open>0.35\<close>, \<open>0.20\<close>, \<open>0.10\<close>, added from left to right, then \<open>int\<close>.
\<close>

definition weighted_sum :: "int \<Rightarrow> int \<Rightarrow> int \<Rightarrow> int \<Rightarrow> rat" where
  "weighted_sum t c p a =
     fadd (fadd (fadd (fmul (of_int t) (fl (35/100))) (fmul (of_int c) (fl (35/100))))
                (fmul (of_int p) (fl (20/100))))
          (fmul (of_int a) (fl (10/100)))"

definition calculate_scores ::
  "metadata \<Rightarrow> technical \<Rightarrow> content \<Rightarrow> images \<Rightarrow> issues \<Rightarrow> scores" where
  "calculate_scores m t c i iss =
     (let technical_score' = max 0 (technical_points t);
          content_score' = max 0 (content_points m c);
          performance_score' = max 0 (perf_points t);
          accessibility_score' = max 0 (access_points m i);
          overall_score' = py_int_of_float
            (weighted_sum technical_score' content_score' performance_score' accessibility_score')
      in \<lparr>overall_score = overall_score',
          technical_score = technical_score',
          content_score = content_score',
          performance_score = performance_score',
          accessibility_score = accessibility_score'\<rparr>)"

text \<open>The weighted average of four scores in exact arithmetic, with the nominal weights.\<close>

definition weighted_average :: "int \<Rightarrow> int \<Rightarrow> int \<Rightarrow> int \<Rightarrow> rat" where
  "weighted_average t c p a =
     of_int t * (35/100) + of_int c * (35/100) + of_int p * (20/100) + of_int a * (10/100)"

section \<open>The outside world: Supabase, clock, external libraries\<close>

text \<open>
  Both services keep their data in Supabase tables.  The tables are part of an explicit
  state; a table with generated ids is a list, the id of a row being its position.  The
  profile columns are the ones the code reads or writes.
\<close>

record profile_row =
  monthly_scan_limit :: int
  monthly_scans_used :: int
  credits_balance :: int

record structured =
  json_ld :: "string list"
  has_schema :: bool

record issues_detail =
  critical :: "string list"
  high :: "string list"
  medium :: "string list"
  low :: "string list"

text \<open>The dictionary \<open>scan_data\<close> built by \<open>scan_url\<close> on success.\<close>

record scan_data =
  sd_metadata :: metadata
  sd_technical :: technical
  sd_content :: content
  sd_scores :: scores
  sd_issues :: issues
  sd_structured_data :: structured
  sd_issues_detail :: issues_detail
  sd_completed_at :: int
  sd_duration_seconds :: int
  sd_status :: string

record scan_row =
  row_user_id :: string
  row_url :: string
  row_domain :: string
  row_status :: string
  row_started_at :: int
  row_error_message :: "string option"
  row_completed_at :: "int option"
  row_data :: "scan_data option"

record credit_transaction =
  tx_user_id :: string
  tx_type :: string
  tx_amount :: int
  tx_balance_after :: int
  tx_reference_id :: "string option"
  tx_reference_type :: string
  tx_description :: string

record ai_usage_row =
  au_user_id :: string
  au_scan_id :: "string option"
  au_operation_type :: string
  au_credits_consumed :: int
  au_success :: bool
  au_error_message :: "string option"

text \<open>The steps of a scan, recorded in the order in which \<open>scan_url\<close> enters them.\<close>

datatype step =
  HttpGet | HtmlParse | FieldExtraction | SeverityBucketing | RuleDeductions | WeightedSum

text \<open>
  \<open>faults\<close> lists the outcomes of the Supabase requests still to come: \<open>None\<close> for a
  request that goes through, \<open>Some e\<close> for one that raises \<open>e\<close>; past its end every request
  goes through.  \<open>clock\<close> is the time in milliseconds; \<open>model_calls\<close> counts the calls of
  \<open>generate_content\<close>; \<open>trace\<close> is the list of scan steps entered so far.
\<close>

record world =
  profiles :: "string \<rightharpoonup> profile_row"
  scans :: "scan_row list"
  credit_transactions :: "credit_transaction list"
  ai_usage :: "ai_usage_row list"
  faults :: "exn option list"
  clock :: int
  model_calls :: nat
  trace :: "step list"

text \<open>
  An operation takes the world and returns a value or a raised exception, with the new
  world.
\<close>

type_synonym 'a io = "world \<Rightarrow> (exn + 'a) \<times> world"

definition io_return :: "'a \<Rightarrow> 'a io" where
  "io_return x w = (Inr x, w)"

definition io_raise :: "exn \<Rightarrow> 'a io" where
  "io_raise e w = (Inl e, w)"

definition io_bind :: "'a io \<Rightarrow> ('a \<Rightarrow> 'b io) \<Rightarrow> 'b io" where
  "io_bind m f w = (case m w of (Inl e, w') \<Rightarrow> (Inl e, w') | (Inr x, w') \<Rightarrow> f x w')"

text \<open>\<open>try: m except Exception as e: h e\<close>.\<close>

definition io_try :: "'a io \<Rightarrow> (exn \<Rightarrow> 'a io) \<Rightarrow> 'a io" where
  "io_try m h w = (case m w of (Inl e, w') \<Rightarrow> h e w' | (Inr x, w') \<Rightarrow> (Inr x, w'))"

text \<open>A computation without effect that may raise.\<close>

definition io_lift :: "exn + 'a \<Rightarrow> 'a io" where
  "io_lift r w = (r, w)"

subsection \<open>Supabase requests\<close>

text \<open>\<open>.execute()\<close>: the request goes through or raises, as \<open>faults\<close> says.\<close>

definition supabase_execute :: "unit io" where
  "supabase_execute w =
     (case faults w of
        [] \<Rightarrow> (Inr (), w)
      | None # fs \<Rightarrow> (Inr (), w\<lparr>faults := fs\<rparr>)
      | Some e # fs \<Rightarrow> (Inl e, w\<lparr>faults := fs\<rparr>))"

text \<open>
  \<open>table('profiles').select(...).eq('id', user_id).single().execute()\<close>; the result is
  \<open>profile.data\<close>, \<open>None\<close> when the user has no row.
\<close>

definition select_profile :: "string \<Rightarrow> profile_row option io" where
  "select_profile user_id =
     io_bind supabase_execute (\<lambda>_ w. (Inr (profiles w user_id), w))"

text \<open>
  The payload of an update gives values to columns.  A value is an integer or, as in
  \<open>deduct_credits\<close>, the request builder that \<open>self.supabase.rpc(...)\<close> returns.  The
  client encodes the payload as JSON when the request is executed; a request builder
  cannot be encoded, and \<open>json.dumps\<close> raises \<open>TypeError\<close> before anything is sent.
\<close>

datatype payload_value = IntValue int | RequestBuilder string

fun encodable :: "payload_value \<Rightarrow> bool" where
  "encodable (IntValue k) = True"
| "encodable (RequestBuilder name) = False"

text \<open>A column of \<open>profiles\<close> set to a value; a column the state does not hold is
  ignored.\<close>

definition set_profile_column :: "string \<Rightarrow> int \<Rightarrow> profile_row \<Rightarrow> profile_row" where
  "set_profile_column col v r =
     (if col = ''credits_balance'' then r\<lparr>credits_balance := v\<rparr>
      else if col = ''monthly_scans_used'' then r\<lparr>monthly_scans_used := v\<rparr>
      else if col = ''monthly_scan_limit'' then r\<lparr>monthly_scan_limit := v\<rparr>
      else r)"

fun apply_payload :: "(string \<times> payload_value) list \<Rightarrow> profile_row \<Rightarrow> profile_row" where
  "apply_payload [] r = r"
| "apply_payload ((col, IntValue v) # rest) r = apply_payload rest (set_profile_column col v r)"
| "apply_payload ((col, RequestBuilder name) # rest) r = apply_payload rest r"

text \<open>\<open>table('profiles').update(payload).eq('id', user_id).execute()\<close>.\<close>

definition update_profile :: "string \<Rightarrow> (string \<times> payload_value) list \<Rightarrow> unit io" where
  "update_profile user_id payload =
     (if list_all (\<lambda>(col, v). encodable v) payload
      then io_bind supabase_execute (\<lambda>_ w.
             (Inr (), case profiles w user_id of
                        None \<Rightarrow> w
                      | Some p \<Rightarrow> w\<lparr>profiles := (profiles w)(user_id \<mapsto> apply_payload payload p)\<rparr>))
      else io_raise (OtherException ''TypeError''))"

text \<open>\<open>table('scans').insert(row).execute()\<close>; the result is the id of the new row.\<close>

definition insert_scan :: "scan_row \<Rightarrow> nat io" where
  "insert_scan row =
     io_bind supabase_execute (\<lambda>_ w. (Inr (length (scans w)), w\<lparr>scans := scans w @ [row]\<rparr>))"

text \<open>\<open>table('scans').update(...).eq('id', scan_id).execute()\<close>.\<close>

definition update_scan :: "nat \<Rightarrow> (scan_row \<Rightarrow> scan_row) \<Rightarrow> unit io" where
  "update_scan scan_id f =
     io_bind supabase_execute (\<lambda>_ w.
       (Inr (), if scan_id < length (scans w)
                then w\<lparr>scans := (scans w)[scan_id := f (scans w ! scan_id)]\<rparr>
                else w))"

definition insert_credit_transaction :: "credit_transaction \<Rightarrow> unit io" where
  "insert_credit_transaction tx =
     io_bind supabase_execute (\<lambda>_ w.
       (Inr (), w\<lparr>credit_transactions := credit_transactions w @ [tx]\<rparr>))"

definition insert_ai_usage :: "ai_usage_row \<Rightarrow> unit io" where
  "insert_ai_usage row =
     io_bind supabase_execute (\<lambda>_ w. (Inr (), w\<lparr>ai_usage := ai_usage w @ [row]\<rparr>))"

subsection \<open>String functions of Python\<close>

definition startswith :: "string \<Rightarrow> string \<Rightarrow> bool" where
  "startswith s p = (take (length p) s = p)"

text \<open>\<open>s.replace(old, new, 1)\<close>: the first occurrence only.\<close>

fun replace_first :: "string \<Rightarrow> string \<Rightarrow> string \<Rightarrow> string" where
  "replace_first old new [] = (if old = [] then new else [])"
| "replace_first old new (c # cs) =
     (if startswith (c # cs) old then new @ drop (length old) (c # cs)
      else c # replace_first old new cs)"

text \<open>Whitespace as \<open>str.strip\<close> and \<open>str.split\<close> see it, among the code points below 256.\<close>

definition is_space :: "char \<Rightarrow> bool" where
  "is_space ch = (of_char ch \<in> {9, 10, 11, 12, 13, 28, 29, 30, 31, 32, 133, 160 :: nat})"

definition py_strip :: "string \<Rightarrow> string" where
  "py_strip s = rev (dropWhile is_space (rev (dropWhile is_space s)))"

text \<open>\<open>s.split()\<close>: the maximal runs of characters that are not whitespace.\<close>

fun split_words :: "string \<Rightarrow> string \<Rightarrow> string list" where
  "split_words cur [] = (if cur = [] then [] else [rev cur])"
| "split_words cur (ch # cs) =
     (if is_space ch then (if cur = [] then split_words [] cs else rev cur # split_words [] cs)
      else split_words (ch # cur) cs)"

definition py_split :: "string \<Rightarrow> string list" where
  "py_split s = split_words [] s"

text \<open>\<open>sep.join(xs)\<close>.\<close>

fun py_join :: "string \<Rightarrow> string list \<Rightarrow> string" where
  "py_join sep [] = []"
| "py_join sep [x] = x"
| "py_join sep (x # y # ys) = x @ sep @ py_join sep (y # ys)"

text \<open>\<open>str(n)\<close> of an integer.\<close>

fun digits_of :: "nat \<Rightarrow> string" where
  "digits_of n = (if n < 10 then [char_of (48 + n)]
                  else digits_of (n div 10) @ [char_of (48 + n mod 10)])"

definition str_of_int :: "int \<Rightarrow> string" where
  "str_of_int k = (if k < 0 then CHR ''-'' # digits_of (nat (- k)) else digits_of (nat k))"

subsection \<open>External libraries\<close>

text \<open>An HTTP response: status code, headers (keys in lower case), and the body as
  \<open>response.text\<close> delivers it, which with \<open>stream=True\<close> is read, and may fail, only then.
  \<open>elapsed_ms\<close> is the time the request took.\<close>

record response =
  status_code :: int
  headers :: "string \<rightharpoonup> string"
  text_of :: "exn + string"
  elapsed_ms :: int

text \<open>A parsed document: elements with a name, attributes and children, and strings.\<close>

datatype node = Element string "(string \<times> string) list" "node list" | Text string

text \<open>
  The library functions the code calls are parameters:
  \<^item> \<open>urlparse\<close> gives the scheme and the network location of a URL, or raises;
  \<^item> \<open>urljoin_netloc base href\<close> is \<open>urlparse(urljoin(base, href)).netloc\<close>;
  \<^item> \<open>http_get\<close> is \<open>session.get\<close>;
  \<^item> \<open>parse_html\<close> is \<open>BeautifulSoup(html, 'html.parser')\<close>, giving the top-level nodes;
  \<^item> \<open>py_int\<close> is \<open>int(s)\<close> on a string, \<open>None\<close> standing for \<open>ValueError\<close>;
  \<^item> \<open>json_loads\<close> is the outcome of \<open>json.loads(s)\<close>: the text is decoded, or
    \<open>JSONDecodeError\<close> is raised with a message, or another exception is raised
    (\<open>RecursionError\<close> on a deeply nested text);
  \<^item> \<open>generate_content\<close> is the Gemini model, from the prompt to \<open>response.text\<close>.
\<close>

datatype json_outcome = Decoded | JSONDecodeError string | JsonRaises exn

record env =
  urlparse :: "string \<Rightarrow> exn + string \<times> string"
  urljoin_netloc :: "string \<Rightarrow> string \<Rightarrow> exn + string"
  http_get :: "string \<Rightarrow> exn + response"
  parse_html :: "string \<Rightarrow> exn + node list"
  py_int :: "string \<Rightarrow> int option"
  json_loads :: "string \<Rightarrow> json_outcome"
  generate_content :: "string \<Rightarrow> exn + string"

section \<open>The credit service (\<open>ai_service.py\<close>)\<close>

definition CREDIT_COSTS :: "(string \<times> int) list" where
  "CREDIT_COSTS =
     [(''seo_audit'', 100), (''keyword_research'', 50), (''content_gap'', 75),
      (''roadmap'', 120), (''quick_suggestions'', 25), (''competitor_analysis'', 150)]"

text \<open>\<open>AIService.check_credits\<close>.\<close>

definition check_credits :: "string \<Rightarrow> string \<Rightarrow> (bool \<times> int) io" where
  "check_credits user_id operation_type =
     io_try
       (io_bind (select_profile user_id) (\<lambda>data.
          case data of
            None \<Rightarrow> io_return (False, 0)
          | Some p \<Rightarrow>
              (let balance = credits_balance p;
                   required = (case map_of CREDIT_COSTS operation_type of
                                 None \<Rightarrow> 0 | Some r \<Rightarrow> r)
               in io_return (balance \<ge> required, balance))))
       (\<lambda>e. io_return (False, 0))"

text \<open>
  \<open>AIService.deduct_credits\<close>.  Subscripting \<open>profile.data\<close> when it is \<open>None\<close> raises
  \<open>TypeError\<close>.  The payload of the update gives \<open>total_credits_used\<close> the request
  builder \<open>self.supabase.rpc('increment', {'x': amount})\<close>.
\<close>

definition deduct_credits ::
  "string \<Rightarrow> int \<Rightarrow> string \<Rightarrow> string option \<Rightarrow> bool io" where
  "deduct_credits user_id amount operation_type scan_id =
     io_try
       (io_bind (select_profile user_id) (\<lambda>data.
          case data of
            None \<Rightarrow> io_raise (OtherException ''TypeError'')
          | Some p \<Rightarrow>
              (let current_balance = credits_balance p in
               if current_balance < amount then io_return False
               else
                 (let new_balance = current_balance - amount in
                  io_bind (update_profile user_id
                     [(''credits_balance'', IntValue new_balance),
                      (''total_credits_used'', RequestBuilder ''increment'')])
                    (\<lambda>_.
                  io_bind (insert_credit_transaction
                     \<lparr>tx_user_id = user_id, tx_type = ''credit_usage'', tx_amount = - amount,
                      tx_balance_after = new_balance, tx_reference_id = scan_id,
                      tx_reference_type = ''ai_operation'',
                      tx_description = ''AI credits used for '' @ operation_type\<rparr>)
                    (\<lambda>_. io_return True))))))
       (\<lambda>e. io_return False)"

text \<open>\<open>AIService._log_ai_usage\<close>; the token counts, the response time and the response
  text it also stores are not read by any code and are left out of the row.\<close>

definition log_ai_usage ::
  "string \<Rightarrow> string \<Rightarrow> string option \<Rightarrow> int \<Rightarrow> bool \<Rightarrow> string option \<Rightarrow> unit io" where
  "log_ai_usage user_id operation scan_id credits_used success error_message =
     io_try
       (insert_ai_usage
          \<lparr>au_user_id = user_id, au_scan_id = scan_id, au_operation_type = operation,
           au_credits_consumed = credits_used, au_success = success,
           au_error_message = error_message\<rparr>)
       (\<lambda>e. io_return ())"

text \<open>\<open>self.model.generate_content(prompt)\<close> followed by reading \<open>response.text\<close>.\<close>

definition call_model :: "env \<Rightarrow> string \<Rightarrow> string io" where
  "call_model ev prompt w = (generate_content ev prompt, w\<lparr>model_calls := model_calls w + 1\<rparr>)"

text \<open>\<open>CREDIT_COSTS[operation]\<close>, raising \<open>KeyError\<close> for an unknown operation.\<close>

definition credit_cost :: "string \<Rightarrow> int io" where
  "credit_cost operation =
     (case map_of CREDIT_COSTS operation of
        None \<Rightarrow> io_raise (OtherException ''KeyError'')
      | Some c \<Rightarrow> io_return c)"

subsection \<open>Parsing the model's answer\<close>

text \<open>\<open>s.split('\n')\<close>.\<close>

fun split_lines :: "string \<Rightarrow> string \<Rightarrow> string list" where
  "split_lines cur [] = [rev cur]"
| "split_lines cur (ch # cs) =
     (if ch = CHR 0x0A then rev cur # split_lines [] cs else split_lines (ch # cur) cs)"

text \<open>\<open>s.replace('##', '')\<close>: every occurrence, from left to right.\<close>

fun remove_hashes :: "string \<Rightarrow> string" where
  "remove_hashes (a # b # cs) =
     (if a = CHR ''#'' \<and> b = CHR ''#'' then remove_hashes cs else a # remove_hashes (b # cs))"
| "remove_hashes cs = cs"

text \<open>\<open>sections[key] = value\<close> on a dictionary kept in insertion order.\<close>

fun dict_set :: "(string \<times> string) list \<Rightarrow> string \<Rightarrow> string \<Rightarrow> (string \<times> string) list" where
  "dict_set [] k v = [(k, v)]"
| "dict_set ((k', v') # kvs) k v =
     (if k' = k then (k, v) # kvs else (k', v') # dict_set kvs k v)"

record audit_report =
  full_text :: string
  sections :: "(string \<times> string) list"
  generated_at :: int

text \<open>The loop of \<open>_parse_audit_response\<close> over the lines; \<open>current_content\<close> is kept
  in reverse.\<close>

fun parse_sections ::
  "string list \<Rightarrow> string option \<Rightarrow> string list \<Rightarrow> (string \<times> string) list
     \<Rightarrow> (string \<times> string) list" where
  "parse_sections [] current_section current_content secs =
     (if truthy current_section
      then dict_set secs (the current_section) (py_join [CHR 0x0A] (rev current_content))
      else secs)"
| "parse_sections (line # lines) current_section current_content secs =
     (if startswith line ''## ''
      then parse_sections lines (Some (py_strip (remove_hashes line))) []
             (if truthy current_section
              then dict_set secs (the current_section)
                     (py_join [CHR 0x0A] (rev current_content))
              else secs)
      else parse_sections lines current_section (line # current_content) secs)"

definition parse_audit_response :: "string \<Rightarrow> audit_report io" where
  "parse_audit_response response_text w =
     (Inr \<lparr>full_text = response_text,
           sections = parse_sections (split_lines [] response_text) None [] [],
           generated_at = clock w\<rparr>, w)"

text \<open>The result of \<open>_extract_json_from_response\<close>: the decoded JSON, given by the text
  it was decoded from, or the dictionary with \<open>raw_text\<close> and \<open>parse_error\<close>.\<close>

datatype keyword_data = Json string | ParseError string string

definition strip_suffix_fence :: "string \<Rightarrow> string" where
  "strip_suffix_fence s =
     (if startswith (rev s) ''```'' then take (length s - 3) s else s)"

text \<open>Only \<open>JSONDecodeError\<close> is caught.\<close>

definition extract_json_from_response :: "env \<Rightarrow> string \<Rightarrow> exn + keyword_data" where
  "extract_json_from_response ev text0 =
     (let t1 = py_strip text0;
          t2 = (if startswith t1 ''```json'' then drop 7 t1 else t1);
          t3 = (if startswith t2 ''```'' then drop 3 t2 else t2);
          t4 = strip_suffix_fence t3
      in case json_loads ev (py_strip t4) of
           Decoded \<Rightarrow> Inr (Json (py_strip t4))
         | JSONDecodeError msg \<Rightarrow> Inr (ParseError t4 msg)
         | JsonRaises e \<Rightarrow> Inl e)"

subsection \<open>The three operations\<close>

text \<open>
  The prompt is text formatted from the arguments inside the \<open>try\<close>; \<open>prompt\<close> is the
  outcome of building it.  \<open>AIService.generate_seo_audit\<close>:
\<close>

definition generate_seo_audit ::
  "env \<Rightarrow> string \<Rightarrow> string \<Rightarrow> exn + string \<Rightarrow> audit_report option io" where
  "generate_seo_audit ev user_id scan_id prompt =
     io_bind (check_credits user_id ''seo_audit'') (\<lambda>(has_credits, balance).
       if \<not> has_credits then io_return None
       else
         io_try
           (io_bind (io_lift prompt) (\<lambda>p.
            io_bind (call_model ev p) (\<lambda>response_text.
            io_bind (parse_audit_response response_text) (\<lambda>audit_report.
            io_bind (credit_cost ''seo_audit'') (\<lambda>credits_used.
            io_bind (deduct_credits user_id credits_used ''seo_audit'' (Some scan_id)) (\<lambda>deducted.
            io_bind (log_ai_usage user_id ''seo_audit'' (Some scan_id) credits_used True None)
              (\<lambda>_. io_return (Some audit_report))))))))
           (\<lambda>e. io_bind
              (log_ai_usage user_id ''seo_audit'' (Some scan_id) 0 False (Some (exn_str e)))
              (\<lambda>_. io_return None)))"

text \<open>\<open>AIService.generate_keyword_research\<close>:\<close>

definition generate_keyword_research ::
  "env \<Rightarrow> string \<Rightarrow> exn + string \<Rightarrow> keyword_data option io" where
  "generate_keyword_research ev user_id prompt =
     io_bind (check_credits user_id ''keyword_research'') (\<lambda>(has_credits, balance).
       if \<not> has_credits then io_return None
       else
         io_try
           (io_bind (io_lift prompt) (\<lambda>p.
            io_bind (call_model ev p) (\<lambda>response_text.
            io_bind (io_lift (extract_json_from_response ev response_text)) (\<lambda>keyword_data.
            io_bind (credit_cost ''keyword_research'') (\<lambda>credits_used.
            io_bind (deduct_credits user_id credits_used ''keyword_research'' None) (\<lambda>_.
            io_bind (log_ai_usage user_id ''keyword_research'' None credits_used True None)
              (\<lambda>_. io_return (Some keyword_data))))))))
           (\<lambda>e. io_bind
              (log_ai_usage user_id ''keyword_research'' None 0 False (Some (exn_str e)))
              (\<lambda>_. io_return None)))"

text \<open>\<open>AIService.generate_seo_roadmap\<close>:\<close>

definition generate_seo_roadmap ::
  "env \<Rightarrow> string \<Rightarrow> string \<Rightarrow> exn + string \<Rightarrow> audit_report option io" where
  "generate_seo_roadmap ev user_id scan_id prompt =
     io_bind (check_credits user_id ''roadmap'') (\<lambda>(has_credits, balance).
       if \<not> has_credits then io_return None
       else
         io_try
           (io_bind (io_lift prompt) (\<lambda>p.
            io_bind (call_model ev p) (\<lambda>response_text.
            io_bind (parse_audit_response response_text) (\<lambda>roadmap_data.
            io_bind (credit_cost ''roadmap'') (\<lambda>credits_used.
            io_bind (deduct_credits user_id credits_used ''roadmap'' (Some scan_id)) (\<lambda>_.
            io_bind (log_ai_usage user_id ''roadmap'' (Some scan_id) credits_used True None)
              (\<lambda>_. io_return (Some roadmap_data))))))))
           (\<lambda>e. io_bind
              (log_ai_usage user_id ''roadmap'' (Some scan_id) 0 False (Some (exn_str e)))
              (\<lambda>_. io_return None)))"

section \<open>The scanner (\<open>seo_scanner.py\<close>)\<close>

definition MAX_PAGE_SIZE :: int where
  "MAX_PAGE_SIZE = 10 * 1024 * 1024"

text \<open>\<open>datetime.utcnow()\<close> and \<open>time.time()\<close> read the clock.\<close>

definition now :: "int io" where
  "now w = (Inr (clock w), w)"

definition enter :: "step \<Rightarrow> unit io" where
  "enter s w = (Inr (), w\<lparr>trace := trace w @ [s]\<rparr>)"

subsection \<open>\<open>_normalize_url\<close>\<close>

definition normalize_url :: "env \<Rightarrow> string \<Rightarrow> string option" where
  "normalize_url ev url0 =
     (let url = (if \<not> (startswith url0 ''http://'' \<or> startswith url0 ''https://'')
                 then ''https://'' @ url0 else url0)
      in case urlparse ev url of
           Inl e \<Rightarrow> None
         | Inr (scheme, netloc) \<Rightarrow>
             if scheme = [] \<or> netloc = [] then None
             else Some (if scheme = ''http''
                        then replace_first ''http://'' ''https://'' url else url))"

subsection \<open>Scan records and limits\<close>

definition check_scan_limits :: "string \<Rightarrow> bool io" where
  "check_scan_limits user_id =
     io_try
       (io_bind (select_profile user_id) (\<lambda>data.
          case data of
            None \<Rightarrow> io_return False
          | Some p \<Rightarrow> io_return (monthly_scans_used p < monthly_scan_limit p)))
       (\<lambda>e. io_return False)"

text \<open>\<open>_create_scan_record\<close> logs an exception and raises it again.\<close>

definition create_scan_record :: "string \<Rightarrow> string \<Rightarrow> string \<Rightarrow> nat io" where
  "create_scan_record user_id url domain =
     io_try
       (io_bind now (\<lambda>started.
          insert_scan
            \<lparr>row_user_id = user_id, row_url = url, row_domain = domain,
             row_status = ''pending'', row_started_at = started, row_error_message = None,
             row_completed_at = None, row_data = None\<rparr>))
       (\<lambda>e. io_raise e)"

definition update_scan_status :: "nat \<Rightarrow> string \<Rightarrow> unit io" where
  "update_scan_status scan_id status = update_scan scan_id (\<lambda>r. r\<lparr>row_status := status\<rparr>)"

definition mark_scan_failed :: "nat \<Rightarrow> string \<Rightarrow> unit io" where
  "mark_scan_failed scan_id error_message =
     io_bind now (\<lambda>t.
       update_scan scan_id
         (\<lambda>r. r\<lparr>row_status := ''failed'', row_error_message := Some error_message,
                row_completed_at := Some t\<rparr>))"

text \<open>\<open>_increment_scan_counter\<close> logs an exception and goes on.\<close>

definition increment_scan_counter :: "string \<Rightarrow> unit io" where
  "increment_scan_counter user_id =
     io_try
       (io_bind (select_profile user_id) (\<lambda>data.
          case data of
            None \<Rightarrow> io_raise (OtherException ''TypeError'')
          | Some p \<Rightarrow>
              update_profile user_id
                [(''monthly_scans_used'', IntValue (monthly_scans_used p + 1))]))
       (\<lambda>e. io_return ())"

subsection \<open>\<open>_fetch_page\<close>\<close>

text \<open>
  Only \<open>requests.RequestException\<close> is caught.  The request takes \<open>elapsed_ms\<close> of the
  clock.  \<open>int(content_length)\<close> raises \<open>ValueError\<close> on a string that is not a number.
\<close>

definition fetch_page :: "env \<Rightarrow> string \<Rightarrow> (string option \<times> int \<times> int) io" where
  "fetch_page ev url w =
     (case http_get ev url of
        Inl (RequestException m) \<Rightarrow> (Inr (None, 0, 0), w)
      | Inl (OtherException m) \<Rightarrow> (Inl (OtherException m), w)
      | Inr resp \<Rightarrow>
          (let w' = w\<lparr>clock := clock w + elapsed_ms resp\<rparr>;
               load_time = elapsed_ms resp;
               content_length = headers resp ''content-length'';
               read_text =
                 (case text_of resp of
                    Inl (RequestException m) \<Rightarrow> (Inr (None, 0, 0), w')
                  | Inl (OtherException m) \<Rightarrow> (Inl (OtherException m), w')
                  | Inr txt \<Rightarrow> (Inr (Some txt, status_code resp, load_time), w'))
           in if truthy content_length
              then (case py_int ev (the content_length) of
                      None \<Rightarrow> (Inl (OtherException ''ValueError''), w')
                    | Some n \<Rightarrow>
                        if n > MAX_PAGE_SIZE then (Inr (None, status_code resp, load_time), w')
                        else read_text)
              else read_text))"

subsection \<open>The parsed document\<close>

text \<open>\<open>find_all\<close> with a list of names: the elements with one of these names, at any
  depth, in document order.\<close>

fun find_all_node :: "string list \<Rightarrow> node \<Rightarrow> node list" where
  "find_all_node names (Text s) = []"
| "find_all_node names (Element n attrs cs) =
     (if n \<in> set names then [Element n attrs cs] else [])
     @ concat (map (find_all_node names) cs)"

definition find_all :: "string list \<Rightarrow> node list \<Rightarrow> node list" where
  "find_all names soup = concat (map (find_all_node names) soup)"

text \<open>
  \<open>for t in soup([...]): t.decompose()\<close> takes every element that \<open>find_all\<close> returned
  out of the tree, together with all it contains; an element inside one already removed is
  gone with it.  The function gives the tree that is left.
\<close>

fun decompose_node :: "string list \<Rightarrow> node \<Rightarrow> node list" where
  "decompose_node names (Text s) = [Text s]"
| "decompose_node names (Element n attrs cs) =
     (if n \<in> set names then []
      else [Element n attrs (concat (map (decompose_node names) cs))])"

definition decompose_all :: "string list \<Rightarrow> node list \<Rightarrow> node list" where
  "decompose_all names soup = concat (map (decompose_node names) soup)"

fun node_strings :: "node \<Rightarrow> string list" where
  "node_strings (Text s) = [s]"
| "node_strings (Element n attrs cs) = concat (map node_strings cs)"

text \<open>\<open>tag.get_text()\<close>.\<close>

definition get_text :: "node \<Rightarrow> string" where
  "get_text t = concat (node_strings t)"

text \<open>\<open>soup.get_text(separator=' ', strip=True)\<close>.\<close>

definition soup_text :: "node list \<Rightarrow> string" where
  "soup_text soup =
     py_join '' '' (filter (\<lambda>s. s \<noteq> []) (map py_strip (concat (map node_strings soup))))"

fun attrs_of :: "node \<Rightarrow> (string \<times> string) list" where
  "attrs_of (Element n attrs cs) = attrs"
| "attrs_of (Text s) = []"

text \<open>\<open>tag.get(key)\<close>.\<close>

definition attr_get :: "node \<Rightarrow> string \<Rightarrow> string option" where
  "attr_get t k = map_of (attrs_of t) k"

text \<open>\<open>soup.find(name, attrs={key: value})\<close>: the first element with that name whose
  attribute has that value.\<close>

definition find_with_attr :: "string \<Rightarrow> string \<Rightarrow> string \<Rightarrow> node list \<Rightarrow> node option" where
  "find_with_attr name k v soup =
     (case filter (\<lambda>t. attr_get t k = Some v) (find_all [name] soup) of
        [] \<Rightarrow> None | t # _ \<Rightarrow> Some t)"

text \<open>The same for \<open>rel\<close>, whose value is a list of words.\<close>

definition find_with_rel :: "string \<Rightarrow> string \<Rightarrow> node list \<Rightarrow> node option" where
  "find_with_rel name v soup =
     (case filter (\<lambda>t. case attr_get t ''rel'' of
                          None \<Rightarrow> False
                        | Some r \<Rightarrow> v \<in> set (py_split r) \<or> r = v)
                  (find_all [name] soup) of
        [] \<Rightarrow> None | t # _ \<Rightarrow> Some t)"

text \<open>\<open>tag.string\<close>.\<close>

fun node_string :: "node \<Rightarrow> string option" where
  "node_string (Text s) = Some s"
| "node_string (Element n attrs [c]) = node_string c"
| "node_string (Element n attrs cs) = None"

subsection \<open>The analysis modules\<close>

definition extract_metadata :: "node list \<Rightarrow> metadata" where
  "extract_metadata soup =
     \<lparr>title = (case find_all [''title''] soup of
                 [] \<Rightarrow> None | t # _ \<Rightarrow> Some (py_strip (get_text t))),
      meta_description =
        (case find_with_attr ''meta'' ''name'' ''description'' soup of
           None \<Rightarrow> None
         | Some t \<Rightarrow> Some (py_strip (case attr_get t ''content'' of None \<Rightarrow> [] | Some c \<Rightarrow> c))),
      h1_tags = map (\<lambda>t. py_strip (get_text t)) (find_all [''h1''] soup),
      canonical_url =
        (case find_with_rel ''link'' ''canonical'' soup of
           None \<Rightarrow> None | Some t \<Rightarrow> attr_get t ''href''),
      robots_meta =
        (case find_with_attr ''meta'' ''name'' ''robots'' soup of
           None \<Rightarrow> None
         | Some t \<Rightarrow> Some (py_strip (case attr_get t ''content'' of None \<Rightarrow> [] | Some c \<Rightarrow> c)))\<rparr>"

text \<open>The length of \<open>html.encode('utf-8')\<close>: a code point below 128 takes one byte, one
  from 128 to 255 takes two.\<close>

definition utf8_len :: "string \<Rightarrow> int" where
  "utf8_len s = (\<Sum>ch\<leftarrow>s. if (of_char ch :: nat) < 128 then 1 else 2)"

definition lower_char :: "char \<Rightarrow> char" where
  "lower_char ch =
     (let n = (of_char ch :: nat)
      in if (65 \<le> n \<and> n \<le> 90) \<or> (192 \<le> n \<and> n \<le> 222 \<and> n \<noteq> 215)
         then char_of (n + 32) else ch)"

fun contains :: "string \<Rightarrow> string \<Rightarrow> bool" where
  "contains [] p = (p = [])"
| "contains (c # cs) p = (startswith (c # cs) p \<or> contains cs p)"

definition analyze_technical ::
  "env \<Rightarrow> string \<Rightarrow> int \<Rightarrow> string \<Rightarrow> int \<Rightarrow> exn + technical" where
  "analyze_technical ev url status html load_time =
     (case urlparse ev url of
        Inl e \<Rightarrow> Inl e
      | Inr (scheme, netloc) \<Rightarrow>
          Inr \<lparr>http_status = status, has_ssl = (scheme = ''https''),
               page_size_kb = utf8_len html div 1024, load_time_ms = load_time,
               is_mobile_friendly = contains (map lower_char html) ''viewport''\<rparr>)"

text \<open>\<open>_analyze_content\<close> changes the document it is given; the new document is
  returned with the result.\<close>

definition analyze_content :: "node list \<Rightarrow> node list \<times> content" where
  "analyze_content soup =
     (let soup' = decompose_all [''script'', ''style'', ''noscript''] soup;
          words = py_split (soup_text soup')
      in (soup',
          \<lparr>word_count = int (length words),
           heading_counts =
             map (\<lambda>h. (h, int (length (find_all [h] soup'))))
               [''h1'', ''h2'', ''h3'', ''h4'', ''h5'', ''h6'']\<rparr>))"

text \<open>An image counts as large when both dimensions are given and one is above 2000;
  a dimension that is not a number ends the check (\<open>ValueError\<close> is passed over).\<close>

definition is_large :: "env \<Rightarrow> node \<Rightarrow> bool" where
  "is_large ev img =
     (truthy (attr_get img ''width'') \<and> truthy (attr_get img ''height'') \<and>
      (case py_int ev (the (attr_get img ''width'')) of
         None \<Rightarrow> False
       | Some wd \<Rightarrow>
           wd > 2000 \<or>
           (case py_int ev (the (attr_get img ''height'')) of
              None \<Rightarrow> False | Some ht \<Rightarrow> ht > 2000)))"

definition analyze_images :: "env \<Rightarrow> node list \<Rightarrow> images" where
  "analyze_images ev soup =
     (let imgs = find_all [''img''] soup
      in \<lparr>image_count = int (length imgs),
          images_without_alt = int (length (filter (\<lambda>t. \<not> truthy (attr_get t ''alt'')) imgs)),
          potentially_large_images = int (length (filter (is_large ev) imgs))\<rparr>)"

text \<open>The loop of \<open>_analyze_links\<close> over the links, with the two counters.\<close>

fun count_links :: "env \<Rightarrow> string \<Rightarrow> string \<Rightarrow> node list \<Rightarrow> int \<times> int \<Rightarrow> exn + int \<times> int" where
  "count_links ev base_url base_domain [] acc = Inr acc"
| "count_links ev base_url base_domain (link # rest) (internal, external) =
     (let href = (case attr_get link ''href'' of None \<Rightarrow> [] | Some h \<Rightarrow> h)
      in if startswith href ''#'' \<or> startswith href ''javascript:''
         then count_links ev base_url base_domain rest (internal, external)
         else (case urljoin_netloc ev base_url href of
                 Inl e \<Rightarrow> Inl e
               | Inr link_domain \<Rightarrow>
                   if link_domain = base_domain
                   then count_links ev base_url base_domain rest (internal + 1, external)
                   else count_links ev base_url base_domain rest (internal, external + 1)))"

definition analyze_links :: "env \<Rightarrow> node list \<Rightarrow> string \<Rightarrow> exn + links" where
  "analyze_links ev soup base_url =
     (let as = filter (\<lambda>t. attr_get t ''href'' \<noteq> None) (find_all [''a''] soup)
      in case urlparse ev base_url of
           Inl e \<Rightarrow> Inl e
         | Inr (scheme, base_domain) \<Rightarrow>
             (case count_links ev base_url base_domain as (0, 0) of
                Inl e \<Rightarrow> Inl e
              | Inr (internal, external) \<Rightarrow>
                  Inr \<lparr>link_count = int (length as), internal_links = internal,
                       external_links = external\<rparr>))"

text \<open>The loop of \<open>_extract_structured_data\<close>: \<open>json.loads\<close> of \<open>None\<close> raises
  \<open>TypeError\<close>, which is not among the exceptions passed over; \<open>JSONDecodeError\<close> is.\<close>

fun load_json_ld :: "env \<Rightarrow> node list \<Rightarrow> structured \<Rightarrow> exn + structured" where
  "load_json_ld ev [] acc = Inr acc"
| "load_json_ld ev (script # rest) acc =
     (case node_string script of
        None \<Rightarrow> Inl (OtherException ''TypeError'')
      | Some src \<Rightarrow>
          (case json_loads ev src of
             JSONDecodeError msg \<Rightarrow> load_json_ld ev rest acc
           | JsonRaises e \<Rightarrow> Inl e
           | Decoded \<Rightarrow> load_json_ld ev rest \<lparr>json_ld = json_ld acc @ [src], has_schema = True\<rparr>))"

definition extract_structured_data :: "env \<Rightarrow> node list \<Rightarrow> exn + structured" where
  "extract_structured_data ev soup =
     load_json_ld ev
       (filter (\<lambda>t. attr_get t ''type'' = Some ''application/ld+json'')
          (find_all [''script''] soup))
       \<lparr>json_ld = [], has_schema = False\<rparr>"

subsection \<open>\<open>_identify_issues\<close>\<close>

definition identify_issues :: "metadata \<Rightarrow> technical \<Rightarrow> content \<Rightarrow> images \<Rightarrow> issues" where
  "identify_issues m t c i =
     (let criticals =
            (if \<not> truthy (title m) then [''Missing page title''] else [])
            @ (if \<not> has_ssl t then [''No HTTPS encryption''] else [])
            @ (if http_status t \<noteq> 200
               then [''HTTP status: '' @ str_of_int (http_status t)] else []);
          highs =
            (if \<not> truthy (meta_description m) then [''Missing meta description''] else [])
            @ (if h1_tags m = [] then [''No H1 heading found'']
               else if length (h1_tags m) > 1
               then [''Multiple H1 tags ('' @ str_of_int (int (length (h1_tags m))) @ '')'']
               else [])
            @ (if word_count c < 300 then [''Thin content (< 300 words)''] else []);
          mediums =
            (if truthy (title m) \<and> length (the (title m)) > 60
             then [''Title tag too long (> 60 chars)''] else [])
            @ (if truthy (meta_description m) \<and> length (the (meta_description m)) > 160
               then [''Meta description too long (> 160 chars)''] else [])
            @ (if load_time_ms t > 3000
               then [''Slow page load ('' @ str_of_int (load_time_ms t) @ ''ms)''] else [])
            @ (if page_size_kb t > 2000
               then [''Large page size ('' @ str_of_int (page_size_kb t) @ ''KB)''] else []);
          lows =
            (if images_without_alt i > 0
             then [str_of_int (images_without_alt i) @ '' images missing alt text''] else [])
            @ (if \<not> is_mobile_friendly t then [''No viewport meta tag''] else [])
      in \<lparr>critical_issues = int (length criticals), high_issues = int (length highs),
          medium_issues = int (length mediums), low_issues = int (length lows),
          critical_list = criticals, high_list = highs, medium_list = mediums,
          low_list = lows\<rparr>)"

definition format_issues_detail :: "issues \<Rightarrow> issues_detail" where
  "format_issues_detail iss =
     \<lparr>critical = critical_list iss, high = high_list iss, medium = medium_list iss,
      low = low_list iss\<rparr>"

subsection \<open>\<open>scan_url\<close>\<close>

text \<open>Lines 89 to 94: the analysis modules in the order in which they are called.  Those
  after \<open>_analyze_content\<close> are given the document it has changed.\<close>

definition extract_fields ::
  "env \<Rightarrow> string \<Rightarrow> int \<Rightarrow> string \<Rightarrow> int \<Rightarrow> node list
     \<Rightarrow> exn + metadata \<times> technical \<times> content \<times> images \<times> links \<times> structured" where
  "extract_fields ev url status html load_time soup =
     (let md = extract_metadata soup
      in case analyze_technical ev url status html load_time of
           Inl e \<Rightarrow> Inl e
         | Inr tech \<Rightarrow>
             (let (soup', cont) = analyze_content soup;
                  imgs = analyze_images ev soup'
              in case analyze_links ev soup' url of
                   Inl e \<Rightarrow> Inl e
                 | Inr lnks \<Rightarrow>
                     (case extract_structured_data ev soup' of
                        Inl e \<Rightarrow> Inl e
                      | Inr sd \<Rightarrow> Inr (md, tech, cont, imgs, lnks, sd))))"

text \<open>The update that stores \<open>scan_data\<close> in the scan record.\<close>

definition store_scan_data :: "scan_data \<Rightarrow> scan_row \<Rightarrow> scan_row" where
  "store_scan_data sd r =
     r\<lparr>row_status := sd_status sd, row_completed_at := Some (sd_completed_at sd),
       row_data := Some sd\<rparr>"

text \<open>Lines 95 to 121, once the fields are extracted.\<close>

definition score_and_store ::
  "string \<Rightarrow> nat \<Rightarrow> int
     \<Rightarrow> metadata \<times> technical \<times> content \<times> images \<times> links \<times> structured \<Rightarrow> nat option io" where
  "score_and_store user_id scan_id start_time extracted =
     (case extracted of (md, tech, cont, imgs, lnks, sd) \<Rightarrow>
        io_bind (enter SeverityBucketing) (\<lambda>_.
        let iss = identify_issues md tech cont imgs in
        io_bind (enter RuleDeductions) (\<lambda>_.
        io_bind (enter WeightedSum) (\<lambda>_.
        let scs = calculate_scores md tech cont imgs iss in
        io_bind now (\<lambda>t.
        io_bind (update_scan scan_id
           (store_scan_data
              \<lparr>sd_metadata = md, sd_technical = tech, sd_content = cont, sd_scores = scs,
               sd_issues = iss, sd_structured_data = sd,
               sd_issues_detail = format_issues_detail iss, sd_completed_at = t,
               sd_duration_seconds = (t - start_time) div 1000,
               sd_status = ''completed''\<rparr>)) (\<lambda>_.
        io_bind (increment_scan_counter user_id) (\<lambda>_.
        io_return (Some scan_id))))))))"

text \<open>Lines 73 to 121: the body of the \<open>try\<close>.\<close>

definition scan_try_body :: "env \<Rightarrow> string \<Rightarrow> string \<Rightarrow> nat \<Rightarrow> nat option io" where
  "scan_try_body ev user_id url scan_id =
     io_bind (update_scan_status scan_id ''processing'') (\<lambda>_.
     io_bind now (\<lambda>start_time.
     io_bind (enter HttpGet) (\<lambda>_.
     io_bind (fetch_page ev url) (\<lambda>(html_content, http_status, load_time).
       if \<not> truthy html_content
       then io_bind
              (mark_scan_failed scan_id (''Failed to fetch page: HTTP '' @ str_of_int http_status))
              (\<lambda>_. io_return None)
       else
         io_bind (enter HtmlParse) (\<lambda>_.
         io_bind (io_lift (parse_html ev (the html_content))) (\<lambda>soup.
         io_bind (enter FieldExtraction) (\<lambda>_.
         io_bind (io_lift (extract_fields ev url http_status (the html_content) load_time soup))
           (score_and_store user_id scan_id start_time))))))))"

text \<open>Lines 123 to 126: the handler of the \<open>try\<close>.\<close>

definition scan_handler :: "nat \<Rightarrow> exn \<Rightarrow> nat option io" where
  "scan_handler scan_id e =
     io_bind (mark_scan_failed scan_id (exn_str e)) (\<lambda>_. io_return None)"

text \<open>\<open>SEOScanner.scan_url\<close>.  The result is the scan id, \<open>None\<close>, or a raised
  exception.\<close>

definition scan_url :: "env \<Rightarrow> string \<Rightarrow> string \<Rightarrow> nat option io" where
  "scan_url ev user_id url0 =
     (case normalize_url ev url0 of
        None \<Rightarrow> io_return None
      | Some url \<Rightarrow>
          io_bind (io_lift (map_sum id snd (urlparse ev url))) (\<lambda>domain.
          io_bind (check_scan_limits user_id) (\<lambda>allowed.
            if \<not> allowed then io_return None
            else
              io_bind (create_scan_record user_id url domain) (\<lambda>scan_id.
                io_try (scan_try_body ev user_id url scan_id) (scan_handler scan_id)))))"

section \<open>Properties stated about a run\<close>

text \<open>
  The number of elements of a document that satisfy \<open>P\<close> (a condition on the name and the
  attributes) and lie neither inside nor among the elements with one of the given names.
\<close>

fun sat :: "(string \<Rightarrow> (string \<times> string) list \<Rightarrow> bool) \<Rightarrow> node \<Rightarrow> bool" where
  "sat P (Element n attrs cs) = P n attrs"
| "sat P (Text s) = False"

fun count_outside_node ::
  "string list \<Rightarrow> (string \<Rightarrow> (string \<times> string) list \<Rightarrow> bool) \<Rightarrow> node \<Rightarrow> nat" where
  "count_outside_node names P (Text s) = 0"
| "count_outside_node names P (Element n attrs cs) =
     (if n \<in> set names then 0
      else (if P n attrs then 1 else 0) + sum_list (map (count_outside_node names P) cs))"

definition count_outside ::
  "string list \<Rightarrow> (string \<Rightarrow> (string \<times> string) list \<Rightarrow> bool) \<Rightarrow> node list \<Rightarrow> nat" where
  "count_outside names P soup = sum_list (map (count_outside_node names P) soup)"

section \<open>Example inputs\<close>

text \<open>A world with one user, 120 credits, 3 of 10 monthly scans used, and no pending fault.\<close>

definition example_world :: world where
  "example_world =
     \<lparr>profiles = [''u1'' \<mapsto> \<lparr>monthly_scan_limit = 10, monthly_scans_used = 3,
                               credits_balance = 120\<rparr>],
      scans = [], credit_transactions = [], ai_usage = [], faults = [], clock = 1000,
      model_calls = 0, trace = []\<rparr>"

text \<open>The same world when the second Supabase request to come raises.\<close>

definition world_second_request_fails :: world where
  "world_second_request_fails =
     example_world\<lparr>faults := [None, Some (OtherException ''connection lost'')]\<rparr>"


text \<open>
  Libraries for the examples.  \<open>example_urlparse\<close> reads the scheme and the network
  location of an absolute \<open>http\<close> or \<open>https\<close> URL; \<open>example_int\<close> reads a string of
  decimal digits.  The page has a title, one heading outside and one inside \<open>noscript\<close>,
  one image and one link outside and one of each inside \<open>noscript\<close>, and a script.
\<close>

definition example_urlparse :: "string \<Rightarrow> exn + string \<times> string" where
  "example_urlparse u =
     (if startswith u ''https://'' then Inr (''https'', takeWhile (\<lambda>ch. ch \<noteq> CHR ''/'') (drop 8 u))
      else if startswith u ''http://'' then Inr (''http'', takeWhile (\<lambda>ch. ch \<noteq> CHR ''/'') (drop 7 u))
      else Inr ([], []))"

definition is_digit :: "char \<Rightarrow> bool" where
  "is_digit ch = (48 \<le> (of_char ch :: nat) \<and> (of_char ch :: nat) \<le> 57)"

definition example_int :: "string \<Rightarrow> int option" where
  "example_int s =
     (if s \<noteq> [] \<and> list_all is_digit s
      then Some (foldl (\<lambda>acc ch. 10 * acc + (int (of_char ch) - 48)) 0 s)
      else None)"

definition example_page :: "node list" where
  "example_page =
     [Element ''html'' []
        [Element ''head'' []
           [Element ''title'' [] [Text ''Home''],
            Element ''script'' [(''type'', ''application/ld+json'')] [Text ''{}'']],
         Element ''body'' []
           [Element ''h1'' [] [Text ''Welcome''],
            Element ''img'' [(''src'', ''a.png''), (''alt'', ''logo'')] [],
            Element ''a'' [(''href'', ''/about'')] [Text ''About''],
            Element ''noscript'' []
              [Element ''h1'' [] [Text ''Enable scripts''],
               Element ''img'' [(''src'', ''pixel.gif'')] [],
               Element ''a'' [(''href'', ''/plain'')] [Text ''Plain'']]]]]"

definition example_response :: response where
  "example_response =
     \<lparr>status_code = 200, headers = Map.empty, text_of = Inr ''<html>'', elapsed_ms = 4000\<rparr>"

definition example_env :: env where
  "example_env =
     \<lparr>urlparse = example_urlparse,
      urljoin_netloc = (\<lambda>b h. Inr ''example.com''),
      http_get = (\<lambda>u. Inr example_response),
      parse_html = (\<lambda>h. Inr example_page),
      py_int = example_int,
      json_loads = (\<lambda>s. Decoded),
      generate_content = (\<lambda>p. Inr ''## Summary'')\<rparr>"

text \<open>The same libraries when the server announces a body of 20000000 bytes.\<close>

definition large_response :: response where
  "large_response =
     \<lparr>status_code = 200, headers = [''content-length'' \<mapsto> ''20000000''],
      text_of = Inr ''<html>'', elapsed_ms = 4000\<rparr>"

definition example_env_large_page :: env where
  "example_env_large_page = example_env\<lparr>http_get := (\<lambda>u. Inr large_response)\<rparr>"


section \<open>Properties of the rounding function\<close>

lemma round_half_even_err: "\<bar>of_int (round_half_even x) - x\<bar> \<le> 1/2"
proof -
  have "of_int \<lfloor>x\<rfloor> \<le> x" "x < of_int \<lfloor>x\<rfloor> + 1" by linarith+
  then show ?thesis
    by (auto simp: round_half_even_def Let_def)
qed

lemma bitlen_pos: "0 < n \<Longrightarrow> 1 \<le> bitlen n"
  using bitlen_eq_zero_iff[of n] bitlen_nonneg[of n] by linarith

lemma pow2_bitlen_lower:
  assumes "0 < n"
  shows "(2::rat) powi (bitlen n - 1) \<le> of_int n"
proof -
  have "2 ^ nat (bitlen n - 1) \<le> n" using bitlen_bounds[OF assms] by blast
  then have "(of_int (2 ^ nat (bitlen n - 1)) :: rat) \<le> of_int n"
    by (simp only: of_int_le_iff)
  moreover have "(2::rat) powi (bitlen n - 1) = 2 ^ nat (bitlen n - 1)"
    using bitlen_pos[OF assms] by (simp add: power_int_def)
  ultimately show ?thesis by simp
qed

lemma pow2_bitlen_upper:
  assumes "0 < d"
  shows "of_int d \<le> (2::rat) powi (bitlen d)"
proof -
  have "d \<le> 2 ^ nat (bitlen d)" using bitlen_bounds[OF assms] by simp
  then have "(of_int d :: rat) \<le> of_int (2 ^ nat (bitlen d))"
    by (simp only: of_int_le_iff)
  moreover have "(2::rat) powi (bitlen d) = 2 ^ nat (bitlen d)"
    using bitlen_pos[OF assms] by (simp add: power_int_def)
  ultimately show ?thesis by simp
qed


lemma binade_le:
  assumes "0 < q"
  shows "2 powi (binade q) \<le> q"
proof -
  obtain n d where nd: "quotient_of q = (n, d)" by (cases "quotient_of q")
  have d: "0 < d" using nd quotient_of_denom_pos by blast
  have q: "q = of_int n / of_int d" using nd quotient_of_div by blast
  have n: "0 < n"
  proof (rule ccontr)
    assume "\<not> 0 < n"
    then have "(of_int n :: rat) \<le> 0" by simp
    then have "of_int n / (of_int d :: rat) \<le> 0" using d by (simp add: divide_le_0_iff)
    then show False using assms q by simp
  qed
  define k where "k = bitlen n - bitlen d"
  have low: "(2::rat) powi (k - 1) \<le> q"
  proof -
    have "k - 1 = (bitlen n - 1) - bitlen d" unfolding k_def by simp
    moreover have "(2::rat) powi ((bitlen n - 1) - bitlen d) = 2 powi (bitlen n - 1) / 2 powi (bitlen d)"
      by (rule power_int_diff) simp
    ultimately have "(2::rat) powi (k - 1) = 2 powi (bitlen n - 1) / 2 powi (bitlen d)"
      by (simp only:)
    also have "\<dots> \<le> of_int n / 2 powi (bitlen d)"
      using pow2_bitlen_lower[OF n] by (simp add: divide_right_mono)
    also have "\<dots> \<le> of_int n / of_int d"
    proof (rule divide_left_mono)
      show "rat_of_int d \<le> 2 powi bitlen d" by (rule pow2_bitlen_upper[OF d])
      show "0 \<le> rat_of_int n" using n by simp
      show "0 < 2 powi bitlen d * rat_of_int d" using d by simp
    qed
    finally show ?thesis using q by simp
  qed
  show ?thesis
  proof (cases "2 powi k \<le> q")
    case True
    then show ?thesis by (simp add: binade_def nd k_def)
  next
    case False
    then show ?thesis using low by (simp add: binade_def nd k_def)
  qed
qed

lemma fl_err:
  assumes "0 < q"
  shows "\<bar>fl q - q\<bar> \<le> q / 2 ^ 53"
proof -
  define u :: rat where "u = 2 powi (binade q - 52)"
  have u0: "0 < u" unfolding u_def by simp
  have "u = 2 powi (binade q) / 2 powi 52"
    unfolding u_def using power_int_diff[of "2::rat" "binade q" 52] by simp
  then have "u * 2 powi 52 = 2 powi (binade q)" by simp
  then have uq: "u * 2 powi 52 \<le> q" using binade_le[OF assms] by simp
  have flq: "fl q = of_int (round_half_even (q / u)) * u"
    using assms by (simp add: fl_def u_def Let_def)
  have "fl q - q = (of_int (round_half_even (q / u)) - q / u) * u"
    using u0 by (simp add: flq left_diff_distrib)
  then have "\<bar>fl q - q\<bar> = \<bar>of_int (round_half_even (q / u)) - q / u\<bar> * u"
    using u0 by (simp add: abs_mult)
  also have "\<dots> \<le> (1/2) * u"
    using round_half_even_err[of "q / u"] u0 by (intro mult_right_mono) auto
  finally have e: "\<bar>fl q - q\<bar> \<le> u / 2" by simp
  have "u / 2 = (u * 2 powi 52) / 2 ^ 53" by simp
  also have "\<dots> \<le> q / 2 ^ 53" using uq by (intro divide_right_mono) auto
  finally show ?thesis using e by linarith
qed


lemma binade_gt:
  assumes "0 < q"
  shows "q < 2 powi (binade q + 1)"
proof -
  obtain n d where nd: "quotient_of q = (n, d)" by (cases "quotient_of q")
  have d: "0 < d" using nd quotient_of_denom_pos by blast
  have q: "q = of_int n / of_int d" using nd quotient_of_div by blast
  have n: "0 < n"
  proof (rule ccontr)
    assume "\<not> 0 < n"
    then have "(of_int n :: rat) \<le> 0" by simp
    then have "of_int n / (of_int d :: rat) \<le> 0" using d by (simp add: divide_le_0_iff)
    then show False using assms q by simp
  qed
  define k where "k = bitlen n - bitlen d"
  have nlt: "of_int n < (2::rat) powi (bitlen n)"
  proof -
    have "n < 2 ^ nat (bitlen n)" using bitlen_bounds[OF n] by simp
    then have "(of_int n :: rat) < of_int (2 ^ nat (bitlen n))"
      by (simp only: of_int_less_iff)
    moreover have "(2::rat) powi (bitlen n) = 2 ^ nat (bitlen n)"
      using bitlen_pos[OF n] by (simp add: power_int_def)
    ultimately show ?thesis by simp
  qed
  have up: "q < (2::rat) powi (k + 1)"
  proof -
    have "k + 1 = bitlen n - (bitlen d - 1)" unfolding k_def by simp
    moreover have "(2::rat) powi (bitlen n - (bitlen d - 1)) = 2 powi (bitlen n) / 2 powi (bitlen d - 1)"
      by (rule power_int_diff) simp
    ultimately have eq: "(2::rat) powi (k + 1) = 2 powi (bitlen n) / 2 powi (bitlen d - 1)"
      by (simp only:)
    have "of_int n / of_int d \<le> of_int n / (2::rat) powi (bitlen d - 1)"
    proof (rule divide_left_mono)
      show "2 powi (bitlen d - 1) \<le> rat_of_int d" by (rule pow2_bitlen_lower[OF d])
      show "0 \<le> rat_of_int n" using n by simp
      show "0 < rat_of_int d * 2 powi (bitlen d - 1)" using d by simp
    qed
    also have "\<dots> < 2 powi (bitlen n) / 2 powi (bitlen d - 1)"
      using nlt by (simp add: divide_strict_right_mono)
    finally show ?thesis using q eq by simp
  qed
  show ?thesis
  proof (cases "2 powi k \<le> q")
    case True
    then show ?thesis using up by (simp add: binade_def nd k_def)
  next
    case False
    then show ?thesis by (simp add: binade_def nd k_def)
  qed
qed

lemma binade_unique:
  assumes "2 powi e \<le> q" "q < 2 powi (e + 1)"
  shows "binade q = e"
proof -
  have q0: "0 < q"
  proof -
    have "(0::rat) < 2 powi e" by simp
    then show ?thesis using assms(1) by linarith
  qed
  have "(2::rat) powi e < 2 powi (binade q + 1)"
    using assms(1) binade_gt[OF q0] by linarith
  then have a: "e < binade q + 1"
    using power_int_increasing[of "binade q + 1" e "2::rat"] by (cases "e < binade q + 1") auto
  have "(2::rat) powi (binade q) < 2 powi (e + 1)"
    using assms(2) binade_le[OF q0] by linarith
  then have b: "binade q < e + 1"
    using power_int_increasing[of "e + 1" "binade q" "2::rat"] by (cases "binade q < e + 1") auto
  show ?thesis using a b by linarith
qed

lemma round_half_even_unique:
  assumes "\<bar>x - of_int m\<bar> * 2 < 1"
  shows "round_half_even x = m"
proof -
  have h: "\<bar>x - of_int m\<bar> < 1/2" using assms by simp
  have f: "of_int \<lfloor>x\<rfloor> \<le> x" "x < of_int \<lfloor>x\<rfloor> + 1" by linarith+
  have "\<lfloor>x\<rfloor> = m \<or> \<lfloor>x\<rfloor> = m - 1"
  proof -
    have a1: "of_int m - 1 < x" using h by linarith
    have a2: "x < of_int m + 1" using h by linarith
    have b1: "m - 1 \<le> \<lfloor>x\<rfloor>" using a1 by linarith
    have b2: "\<lfloor>x\<rfloor> < m + 1" using a2 by linarith
    show ?thesis using b1 b2 by linarith
  qed
  then show ?thesis
  proof
    assume fm: "\<lfloor>x\<rfloor> = m"
    then have "x - of_int \<lfloor>x\<rfloor> < 1/2" using h by linarith
    then show ?thesis using fm by (simp add: round_half_even_def Let_def)
  next
    assume fm: "\<lfloor>x\<rfloor> = m - 1"
    have "x - of_int m > - (1/2)" using h by linarith
    then have "x - of_int \<lfloor>x\<rfloor> > 1/2" unfolding fm by simp
    then show ?thesis using fm by (simp add: round_half_even_def Let_def)
  qed
qed

lemma round_half_even_tie:
  assumes "\<bar>x - of_int m\<bar> * 2 = 1" and "even m"
  shows "round_half_even x = m"
proof -
  have h: "\<bar>x - of_int m\<bar> = 1/2" using assms(1) by simp
  then have "x - of_int m = 1/2 \<or> x - of_int m = - (1/2)" by linarith
  then show ?thesis
  proof
    assume a: "x - of_int m = 1/2"
    have "\<lfloor>x\<rfloor> = m" by (rule floor_unique) (use a in linarith)+
    then show ?thesis using a assms(2) by (simp add: round_half_even_def Let_def)
  next
    assume a: "x - of_int m = - (1/2)"
    have x: "x = of_int m - 1/2" using a by linarith
    have fm: "\<lfloor>x\<rfloor> = m - 1" by (rule floor_unique) (simp_all add: x)
    have "x - of_int (m - 1) = 1/2" using a by simp
    then show ?thesis using assms(2) by (simp add: round_half_even_def Let_def fm)
  qed
qed

lemma fl_eq_round:
  assumes u: "u = 2 powi e"
    and lo: "2 ^ 52 * u \<le> q" and hi: "q < 2 ^ 53 * u"
    and r: "round_half_even (q / u) = m"
  shows "fl q = of_int m * u"
proof -
  have u0: "0 < u" unfolding u by simp
  have q0: "0 < q"
  proof -
    have "0 < 2 ^ 52 * u" using u0 by simp
    then show ?thesis using lo by linarith
  qed
  have p52: "2 ^ 52 * u = 2 powi (e + 52)"
    unfolding u using power_int_add[of "2::rat" e 52] by simp
  have p53: "2 ^ 53 * u = 2 powi (e + 52 + 1)"
    unfolding u using power_int_add[of "2::rat" e 53] by (simp add: add.assoc)
  have b: "binade q = e + 52"
    by (rule binade_unique) (use lo hi p52 p53 in simp_all)
  show ?thesis using q0 b r by (simp add: fl_def u Let_def)
qed

lemma abs_scaled:
  assumes "0 < (u::rat)"
  shows "\<bar>q / u - of_int m\<bar> = \<bar>q - of_int m * u\<bar> / u"
proof -
  have "q / u - of_int m = (q - of_int m * u) / u" using assms by (simp add: divide_simps)
  then show ?thesis using assms by (simp add: abs_divide split: abs_split)
qed

lemma fl_eqI:
  assumes u: "u = 2 powi e"
    and lo: "2 ^ 52 * u \<le> q" and hi: "q < 2 ^ 53 * u"
    and near: "\<bar>q - of_int m * u\<bar> * 2 < u"
  shows "fl q = of_int m * u"
proof -
  have u0: "0 < u" unfolding u by simp
  have "\<bar>q / u - of_int m\<bar> * 2 < 1"
    unfolding abs_scaled[OF u0] using near u0 by (simp add: divide_simps)
  then have "round_half_even (q / u) = m" by (rule round_half_even_unique)
  then show ?thesis by (rule fl_eq_round[OF u lo hi])
qed

lemma fl_eqI_tie:
  assumes u: "u = 2 powi e"
    and lo: "2 ^ 52 * u \<le> q" and hi: "q < 2 ^ 53 * u"
    and tie: "\<bar>q - of_int m * u\<bar> * 2 = u" and ev: "even m"
  shows "fl q = of_int m * u"
proof -
  have u0: "0 < u" unfolding u by simp
  have "\<bar>q / u - of_int m\<bar> * 2 = 1"
    unfolding abs_scaled[OF u0] using tie u0 by (simp add: divide_simps)
  then have "round_half_even (q / u) = m" using ev by (rule round_half_even_tie)
  then show ?thesis by (rule fl_eq_round[OF u lo hi])
qed

lemma fl_abs_err:
  assumes "0 \<le> q" "q \<le> b"
  shows "fl q \<le> q + b / 1000000" and "q - b / 1000000 \<le> fl q"
proof -
  have "\<bar>fl q - q\<bar> \<le> b / 1000000"
  proof (cases "q = 0")
    case True then show ?thesis using assms by (simp add: fl_def)
  next
    case False
    then have q0: "0 < q" using assms by simp
    have "q / 2 ^ 53 \<le> q / 1000000"
      using q0 by (intro divide_left_mono) auto
    also have "\<dots> \<le> b / 1000000" using assms by simp
    finally show ?thesis using fl_err[OF q0] by linarith
  qed
  then show "fl q \<le> q + b / 1000000" and "q - b / 1000000 \<le> fl q" by linarith+
qed

lemma fl_nonneg:
  assumes "0 \<le> q"
  shows "0 \<le> fl q"
proof (cases "q = 0")
  case True then show ?thesis by (simp add: fl_def)
next
  case False
  then have q0: "0 < q" using assms by simp
  have "q / 2 ^ 53 \<le> q / 1" using q0 by (intro divide_left_mono) auto
  then have "\<bar>fl q - q\<bar> \<le> q" using fl_err[OF q0] by linarith
  then show ?thesis by linarith
qed

lemma fmul_weight_err:
  assumes x: "0 \<le> x" "x \<le> 100" and w: "0 \<le> w" "w \<le> 1"
  shows "fmul x (fl w) \<le> x * w + 201 / 1000000"
    and "x * w - 201 / 1000000 \<le> fmul x (fl w)"
    and "0 \<le> fmul x (fl w)"
proof -
  have w1: "fl w \<le> w + 1 / 1000000" and w2: "w - 1 / 1000000 \<le> fl w"
    using fl_abs_err[OF w] by simp_all
  have fw0: "0 \<le> fl w" by (rule fl_nonneg[OF w(1)])
  have "x * fl w \<le> x * (w + 1 / 1000000)" using x w1 by (intro mult_left_mono) auto
  also have "\<dots> = x * w + x * (1 / 1000000)" by (simp add: distrib_left)
  finally have u1: "x * fl w \<le> x * w + 100 / 1000000" using x by simp
  have "x * (w - 1 / 1000000) \<le> x * fl w" using x w2 by (intro mult_left_mono) auto
  moreover have "x * (w - 1 / 1000000) = x * w - x * (1 / 1000000)" by (simp add: right_diff_distrib)
  ultimately have l1: "x * w - 100 / 1000000 \<le> x * fl w" using x by simp
  have xw: "x * w \<le> 100 * 1" using x w by (intro mult_mono) auto
  have p0: "0 \<le> x * fl w" using x fw0 by simp
  have p1: "x * fl w \<le> 101" using u1 xw by linarith
  have u2: "fl (x * fl w) \<le> x * fl w + 101 / 1000000"
    and l2: "x * fl w - 101 / 1000000 \<le> fl (x * fl w)"
    using fl_abs_err[OF p0 p1] by simp_all
  show "fmul x (fl w) \<le> x * w + 201 / 1000000" unfolding fmul_def using u1 u2 by linarith
  show "x * w - 201 / 1000000 \<le> fmul x (fl w)" unfolding fmul_def using l1 l2 by linarith
  show "0 \<le> fmul x (fl w)" unfolding fmul_def by (rule fl_nonneg[OF p0])
qed

lemma fadd_err:
  assumes "0 \<le> x" "0 \<le> y" "x + y \<le> b"
  shows "fadd x y \<le> x + y + b / 1000000"
    and "x + y - b / 1000000 \<le> fadd x y"
    and "0 \<le> fadd x y"
proof -
  have s0: "0 \<le> x + y" using assms by simp
  show "fadd x y \<le> x + y + b / 1000000" unfolding fadd_def by (rule fl_abs_err(1)[OF s0 assms(3)])
  show "x + y - b / 1000000 \<le> fadd x y" unfolding fadd_def by (rule fl_abs_err(2)[OF s0 assms(3)])
  show "0 \<le> fadd x y" unfolding fadd_def by (rule fl_nonneg[OF s0])
qed

lemma weighted_sum_close:
  assumes "0 \<le> t" "t \<le> 100" "0 \<le> c" "c \<le> 100" "0 \<le> p" "p \<le> 100" "0 \<le> a" "a \<le> 100"
  shows "weighted_sum t c p a \<le> weighted_average t c p a + 1 / 500"
    and "weighted_average t c p a - 1 / 500 \<le> weighted_sum t c p a"
    and "0 \<le> weighted_sum t c p a"
proof -
  define A where "A = fmul (of_int t) (fl (35/100))"
  define B where "B = fmul (of_int c) (fl (35/100))"
  define P where "P = fmul (of_int p) (fl (20/100))"
  define Q where "Q = fmul (of_int a) (fl (10/100))"
  define S1 where "S1 = fadd A B"
  define S2 where "S2 = fadd S1 P"
  define S3 where "S3 = fadd S2 Q"
  have ws: "weighted_sum t c p a = S3"
    by (simp add: weighted_sum_def A_def B_def P_def Q_def S1_def S2_def S3_def)
  have tq: "0 \<le> (of_int t :: rat)" "(of_int t :: rat) \<le> 100"
    and cq: "0 \<le> (of_int c :: rat)" "(of_int c :: rat) \<le> 100"
    and pq: "0 \<le> (of_int p :: rat)" "(of_int p :: rat) \<le> 100"
    and aq: "0 \<le> (of_int a :: rat)" "(of_int a :: rat) \<le> 100"
    using assms by simp_all
  have w35: "(0::rat) \<le> 35/100" "(35/100::rat) \<le> 1"
    and w20: "(0::rat) \<le> 20/100" "(20/100::rat) \<le> 1"
    and w10: "(0::rat) \<le> 10/100" "(10/100::rat) \<le> 1" by simp_all
  note eA = fmul_weight_err[OF tq w35, folded A_def]
  note eB = fmul_weight_err[OF cq w35, folded B_def]
  note eP = fmul_weight_err[OF pq w20, folded P_def]
  note eQ = fmul_weight_err[OF aq w10, folded Q_def]
  have bAB: "A + B \<le> 71" using eA(1) eB(1) tq(2) cq(2) by linarith
  note e1 = fadd_err[OF eA(3) eB(3) bAB, folded S1_def]
  have b2: "S1 + P \<le> 92" using e1(1) bAB eP(1) pq(2) by linarith
  note e2 = fadd_err[OF e1(3) eP(3) b2, folded S2_def]
  have b3: "S2 + Q \<le> 103" using e2(1) b2 eQ(1) aq(2) by linarith
  note e3 = fadd_err[OF e2(3) eQ(3) b3, folded S3_def]
  show "weighted_sum t c p a \<le> weighted_average t c p a + 1 / 500"
    unfolding ws weighted_average_def using e1(1) e2(1) e3(1) eA(1) eB(1) eP(1) eQ(1) by linarith
  show "weighted_average t c p a - 1 / 500 \<le> weighted_sum t c p a"
    unfolding ws weighted_average_def using e1(2) e2(2) e3(2) eA(2) eB(2) eP(2) eQ(2) by linarith
  show "0 \<le> weighted_sum t c p a" unfolding ws by (rule e3(3))
qed

subsection \<open>Evaluations of the weighted sum\<close>

text \<open>Each step names the mantissa and the unit in the last place of the rounded result.\<close>

lemma fl_weight_35: "fl (35 / 100) = 3152519739159347 / 9007199254740992"
  using fl_eqI[of "1 / 2 ^ 54" "-54" "7 / 20" 6305039478318694] by simp

lemma fl_weight_20: "fl (20 / 100) = 3602879701896397 / 18014398509481984"
  using fl_eqI[of "1 / 2 ^ 55" "-55" "1 / 5" 7205759403792794] by simp

lemma fl_weight_10: "fl (10 / 100) = 3602879701896397 / 36028797018963968"
  using fl_eqI[of "1 / 2 ^ 56" "-56" "1 / 10" 7205759403792794] by simp

lemma weighted_sum_diag_20: "py_int_of_float (weighted_sum 20 20 20 20) = 20"
proof -
  have A: "fmul (of_int 20) (3152519739159347 / 9007199254740992) = 7"
    unfolding fmul_def using fl_eqI_tie[of "1 / 2 ^ 50" "-50" "15762598695796735 / 2251799813685248" 7881299347898368] by simp
  have S1: "fadd (7) (7) = 14"
    unfolding fadd_def using fl_eqI[of "1 / 2 ^ 49" "-49" "14" 7881299347898368] by simp
  have P: "fmul (of_int 20) (3602879701896397 / 18014398509481984) = 4"
    unfolding fmul_def using fl_eqI[of "1 / 2 ^ 50" "-50" "18014398509481985 / 4503599627370496" 4503599627370496] by simp
  have S2: "fadd (14) (4) = 18"
    unfolding fadd_def using fl_eqI[of "1 / 2 ^ 48" "-48" "18" 5066549580791808] by simp
  have Q: "fmul (of_int 20) (3602879701896397 / 36028797018963968) = 2"
    unfolding fmul_def using fl_eqI[of "1 / 2 ^ 51" "-51" "18014398509481985 / 9007199254740992" 4503599627370496] by simp
  have S3: "fadd (18) (2) = 20"
    unfolding fadd_def using fl_eqI[of "1 / 2 ^ 48" "-48" "20" 5629499534213120] by simp
  show ?thesis
    unfolding weighted_sum_def fl_weight_35 fl_weight_20 fl_weight_10 A S1 P S2 Q S3
    by (simp add: py_int_of_float_def floor_eq_iff)
qed

lemma weighted_sum_diag_30: "py_int_of_float (weighted_sum 30 30 30 30) = 30"
proof -
  have A: "fmul (of_int 30) (3152519739159347 / 9007199254740992) = 21 / 2"
    unfolding fmul_def using fl_eqI[of "1 / 2 ^ 49" "-49" "47287796087390205 / 4503599627370496" 5910974510923776] by simp
  have S1: "fadd (21 / 2) (21 / 2) = 21"
    unfolding fadd_def using fl_eqI[of "1 / 2 ^ 48" "-48" "21" 5910974510923776] by simp
  have P: "fmul (of_int 30) (3602879701896397 / 18014398509481984) = 6"
    unfolding fmul_def using fl_eqI[of "1 / 2 ^ 50" "-50" "54043195528445955 / 9007199254740992" 6755399441055744] by simp
  have S2: "fadd (21) (6) = 27"
    unfolding fadd_def using fl_eqI[of "1 / 2 ^ 48" "-48" "27" 7599824371187712] by simp
  have Q: "fmul (of_int 30) (3602879701896397 / 36028797018963968) = 3"
    unfolding fmul_def using fl_eqI[of "1 / 2 ^ 51" "-51" "54043195528445955 / 18014398509481984" 6755399441055744] by simp
  have S3: "fadd (27) (3) = 30"
    unfolding fadd_def using fl_eqI[of "1 / 2 ^ 48" "-48" "30" 8444249301319680] by simp
  show ?thesis
    unfolding weighted_sum_def fl_weight_35 fl_weight_20 fl_weight_10 A S1 P S2 Q S3
    by (simp add: py_int_of_float_def floor_eq_iff)
qed

lemma weighted_sum_diag_35: "py_int_of_float (weighted_sum 35 35 35 35) = 35"
proof -
  have A: "fmul (of_int 35) (3152519739159347 / 9007199254740992) = 49 / 4"
    unfolding fmul_def using fl_eqI[of "1 / 2 ^ 49" "-49" "110338190870577145 / 9007199254740992" 6896136929411072] by simp
  have S1: "fadd (49 / 4) (49 / 4) = 49 / 2"
    unfolding fadd_def using fl_eqI[of "1 / 2 ^ 48" "-48" "49 / 2" 6896136929411072] by simp
  have P: "fmul (of_int 35) (3602879701896397 / 18014398509481984) = 7"
    unfolding fmul_def using fl_eqI[of "1 / 2 ^ 50" "-50" "126100789566373895 / 18014398509481984" 7881299347898368] by simp
  have S2: "fadd (49 / 2) (7) = 63 / 2"
    unfolding fadd_def using fl_eqI[of "1 / 2 ^ 48" "-48" "63 / 2" 8866461766385664] by simp
  have Q: "fmul (of_int 35) (3602879701896397 / 36028797018963968) = 7 / 2"
    unfolding fmul_def using fl_eqI[of "1 / 2 ^ 51" "-51" "126100789566373895 / 36028797018963968" 7881299347898368] by simp
  have S3: "fadd (63 / 2) (7 / 2) = 35"
    unfolding fadd_def using fl_eqI[of "1 / 2 ^ 47" "-47" "35" 4925812092436480] by simp
  show ?thesis
    unfolding weighted_sum_def fl_weight_35 fl_weight_20 fl_weight_10 A S1 P S2 Q S3
    by (simp add: py_int_of_float_def floor_eq_iff)
qed

lemma weighted_sum_diag_45: "py_int_of_float (weighted_sum 45 45 45 45) = 45"
proof -
  have A: "fmul (of_int 45) (3152519739159347 / 9007199254740992) = 8866461766385663 / 562949953421312"
    unfolding fmul_def using fl_eqI[of "1 / 2 ^ 49" "-49" "141863388262170615 / 9007199254740992" 8866461766385663] by simp
  have S1: "fadd (8866461766385663 / 562949953421312) (8866461766385663 / 562949953421312) = 8866461766385663 / 281474976710656"
    unfolding fadd_def using fl_eqI[of "1 / 2 ^ 48" "-48" "8866461766385663 / 281474976710656" 8866461766385663] by simp
  have P: "fmul (of_int 45) (3602879701896397 / 18014398509481984) = 9"
    unfolding fmul_def using fl_eqI[of "1 / 2 ^ 49" "-49" "162129586585337865 / 18014398509481984" 5066549580791808] by simp
  have S2: "fadd (8866461766385663 / 281474976710656) (9) = 81 / 2"
    unfolding fadd_def using fl_eqI_tie[of "1 / 2 ^ 47" "-47" "11399736556781567 / 281474976710656" 5699868278390784] by simp
  have Q: "fmul (of_int 45) (3602879701896397 / 36028797018963968) = 9 / 2"
    unfolding fmul_def using fl_eqI[of "1 / 2 ^ 50" "-50" "162129586585337865 / 36028797018963968" 5066549580791808] by simp
  have S3: "fadd (81 / 2) (9 / 2) = 45"
    unfolding fadd_def using fl_eqI[of "1 / 2 ^ 47" "-47" "45" 6333186975989760] by simp
  show ?thesis
    unfolding weighted_sum_def fl_weight_35 fl_weight_20 fl_weight_10 A S1 P S2 Q S3
    by (simp add: py_int_of_float_def floor_eq_iff)
qed

lemma weighted_sum_diag_50: "py_int_of_float (weighted_sum 50 50 50 50) = 50"
proof -
  have A: "fmul (of_int 50) (3152519739159347 / 9007199254740992) = 35 / 2"
    unfolding fmul_def using fl_eqI[of "1 / 2 ^ 48" "-48" "78812993478983675 / 4503599627370496" 4925812092436480] by simp
  have S1: "fadd (35 / 2) (35 / 2) = 35"
    unfolding fadd_def using fl_eqI[of "1 / 2 ^ 47" "-47" "35" 4925812092436480] by simp
  have P: "fmul (of_int 50) (3602879701896397 / 18014398509481984) = 10"
    unfolding fmul_def using fl_eqI[of "1 / 2 ^ 49" "-49" "90071992547409925 / 9007199254740992" 5629499534213120] by simp
  have S2: "fadd (35) (10) = 45"
    unfolding fadd_def using fl_eqI[of "1 / 2 ^ 47" "-47" "45" 6333186975989760] by simp
  have Q: "fmul (of_int 50) (3602879701896397 / 36028797018963968) = 5"
    unfolding fmul_def using fl_eqI[of "1 / 2 ^ 50" "-50" "90071992547409925 / 18014398509481984" 5629499534213120] by simp
  have S3: "fadd (45) (5) = 50"
    unfolding fadd_def using fl_eqI[of "1 / 2 ^ 47" "-47" "50" 7036874417766400] by simp
  show ?thesis
    unfolding weighted_sum_def fl_weight_35 fl_weight_20 fl_weight_10 A S1 P S2 Q S3
    by (simp add: py_int_of_float_def floor_eq_iff)
qed

lemma weighted_sum_diag_55: "py_int_of_float (weighted_sum 55 55 55 55) = 55"
proof -
  have A: "fmul (of_int 55) (3152519739159347 / 9007199254740992) = 77 / 4"
    unfolding fmul_def using fl_eqI[of "1 / 2 ^ 48" "-48" "173388585653764085 / 9007199254740992" 5418393301680128] by simp
  have S1: "fadd (77 / 4) (77 / 4) = 77 / 2"
    unfolding fadd_def using fl_eqI[of "1 / 2 ^ 47" "-47" "77 / 2" 5418393301680128] by simp
  have P: "fmul (of_int 55) (3602879701896397 / 18014398509481984) = 11"
    unfolding fmul_def using fl_eqI[of "1 / 2 ^ 49" "-49" "198158383604301835 / 18014398509481984" 6192449487634432] by simp
  have S2: "fadd (77 / 2) (11) = 99 / 2"
    unfolding fadd_def using fl_eqI[of "1 / 2 ^ 47" "-47" "99 / 2" 6966505673588736] by simp
  have Q: "fmul (of_int 55) (3602879701896397 / 36028797018963968) = 11 / 2"
    unfolding fmul_def using fl_eqI[of "1 / 2 ^ 50" "-50" "198158383604301835 / 36028797018963968" 6192449487634432] by simp
  have S3: "fadd (99 / 2) (11 / 2) = 55"
    unfolding fadd_def using fl_eqI[of "1 / 2 ^ 47" "-47" "55" 7740561859543040] by simp
  show ?thesis
    unfolding weighted_sum_def fl_weight_35 fl_weight_20 fl_weight_10 A S1 P S2 Q S3
    by (simp add: py_int_of_float_def floor_eq_iff)
qed

lemma weighted_sum_diag_60: "py_int_of_float (weighted_sum 60 60 60 60) = 60"
proof -
  have A: "fmul (of_int 60) (3152519739159347 / 9007199254740992) = 21"
    unfolding fmul_def using fl_eqI[of "1 / 2 ^ 48" "-48" "47287796087390205 / 2251799813685248" 5910974510923776] by simp
  have S1: "fadd (21) (21) = 42"
    unfolding fadd_def using fl_eqI[of "1 / 2 ^ 47" "-47" "42" 5910974510923776] by simp
  have P: "fmul (of_int 60) (3602879701896397 / 18014398509481984) = 12"
    unfolding fmul_def using fl_eqI[of "1 / 2 ^ 49" "-49" "54043195528445955 / 4503599627370496" 6755399441055744] by simp
  have S2: "fadd (42) (12) = 54"
    unfolding fadd_def using fl_eqI[of "1 / 2 ^ 47" "-47" "54" 7599824371187712] by simp
  have Q: "fmul (of_int 60) (3602879701896397 / 36028797018963968) = 6"
    unfolding fmul_def using fl_eqI[of "1 / 2 ^ 50" "-50" "54043195528445955 / 9007199254740992" 6755399441055744] by simp
  have S3: "fadd (54) (6) = 60"
    unfolding fadd_def using fl_eqI[of "1 / 2 ^ 47" "-47" "60" 8444249301319680] by simp
  show ?thesis
    unfolding weighted_sum_def fl_weight_35 fl_weight_20 fl_weight_10 A S1 P S2 Q S3
    by (simp add: py_int_of_float_def floor_eq_iff)
qed

lemma weighted_sum_diag_65: "py_int_of_float (weighted_sum 65 65 65 65) = 65"
proof -
  have A: "fmul (of_int 65) (3152519739159347 / 9007199254740992) = 91 / 4"
    unfolding fmul_def using fl_eqI[of "1 / 2 ^ 48" "-48" "204913783045357555 / 9007199254740992" 6403555720167424] by simp
  have S1: "fadd (91 / 4) (91 / 4) = 91 / 2"
    unfolding fadd_def using fl_eqI[of "1 / 2 ^ 47" "-47" "91 / 2" 6403555720167424] by simp
  have P: "fmul (of_int 65) (3602879701896397 / 18014398509481984) = 13"
    unfolding fmul_def using fl_eqI[of "1 / 2 ^ 49" "-49" "234187180623265805 / 18014398509481984" 7318349394477056] by simp
  have S2: "fadd (91 / 2) (13) = 117 / 2"
    unfolding fadd_def using fl_eqI[of "1 / 2 ^ 47" "-47" "117 / 2" 8233143068786688] by simp
  have Q: "fmul (of_int 65) (3602879701896397 / 36028797018963968) = 13 / 2"
    unfolding fmul_def using fl_eqI[of "1 / 2 ^ 50" "-50" "234187180623265805 / 36028797018963968" 7318349394477056] by simp
  have S3: "fadd (117 / 2) (13 / 2) = 65"
    unfolding fadd_def using fl_eqI[of "1 / 2 ^ 46" "-46" "65" 4573968371548160] by simp
  show ?thesis
    unfolding weighted_sum_def fl_weight_35 fl_weight_20 fl_weight_10 A S1 P S2 Q S3
    by (simp add: py_int_of_float_def floor_eq_iff)
qed

lemma weighted_sum_diag_70: "py_int_of_float (weighted_sum 70 70 70 70) = 70"
proof -
  have A: "fmul (of_int 70) (3152519739159347 / 9007199254740992) = 49 / 2"
    unfolding fmul_def using fl_eqI[of "1 / 2 ^ 48" "-48" "110338190870577145 / 4503599627370496" 6896136929411072] by simp
  have S1: "fadd (49 / 2) (49 / 2) = 49"
    unfolding fadd_def using fl_eqI[of "1 / 2 ^ 47" "-47" "49" 6896136929411072] by simp
  have P: "fmul (of_int 70) (3602879701896397 / 18014398509481984) = 14"
    unfolding fmul_def using fl_eqI[of "1 / 2 ^ 49" "-49" "126100789566373895 / 9007199254740992" 7881299347898368] by simp
  have S2: "fadd (49) (14) = 63"
    unfolding fadd_def using fl_eqI[of "1 / 2 ^ 47" "-47" "63" 8866461766385664] by simp
  have Q: "fmul (of_int 70) (3602879701896397 / 36028797018963968) = 7"
    unfolding fmul_def using fl_eqI[of "1 / 2 ^ 50" "-50" "126100789566373895 / 18014398509481984" 7881299347898368] by simp
  have S3: "fadd (63) (7) = 70"
    unfolding fadd_def using fl_eqI[of "1 / 2 ^ 46" "-46" "70" 4925812092436480] by simp
  show ?thesis
    unfolding weighted_sum_def fl_weight_35 fl_weight_20 fl_weight_10 A S1 P S2 Q S3
    by (simp add: py_int_of_float_def floor_eq_iff)
qed

lemma weighted_sum_diag_75: "py_int_of_float (weighted_sum 75 75 75 75) = 75"
proof -
  have A: "fmul (of_int 75) (3152519739159347 / 9007199254740992) = 105 / 4"
    unfolding fmul_def using fl_eqI[of "1 / 2 ^ 48" "-48" "236438980436951025 / 9007199254740992" 7388718138654720] by simp
  have S1: "fadd (105 / 4) (105 / 4) = 105 / 2"
    unfolding fadd_def using fl_eqI[of "1 / 2 ^ 47" "-47" "105 / 2" 7388718138654720] by simp
  have P: "fmul (of_int 75) (3602879701896397 / 18014398509481984) = 15"
    unfolding fmul_def using fl_eqI[of "1 / 2 ^ 49" "-49" "270215977642229775 / 18014398509481984" 8444249301319680] by simp
  have S2: "fadd (105 / 2) (15) = 135 / 2"
    unfolding fadd_def using fl_eqI[of "1 / 2 ^ 46" "-46" "135 / 2" 4749890231992320] by simp
  have Q: "fmul (of_int 75) (3602879701896397 / 36028797018963968) = 15 / 2"
    unfolding fmul_def using fl_eqI[of "1 / 2 ^ 50" "-50" "270215977642229775 / 36028797018963968" 8444249301319680] by simp
  have S3: "fadd (135 / 2) (15 / 2) = 75"
    unfolding fadd_def using fl_eqI[of "1 / 2 ^ 46" "-46" "75" 5277655813324800] by simp
  show ?thesis
    unfolding weighted_sum_def fl_weight_35 fl_weight_20 fl_weight_10 A S1 P S2 Q S3
    by (simp add: py_int_of_float_def floor_eq_iff)
qed

lemma weighted_sum_diag_85: "py_int_of_float (weighted_sum 85 85 85 85) = 85"
proof -
  have A: "fmul (of_int 85) (3152519739159347 / 9007199254740992) = 8373880557142015 / 281474976710656"
    unfolding fmul_def using fl_eqI[of "1 / 2 ^ 48" "-48" "267964177828544495 / 9007199254740992" 8373880557142015] by simp
  have S1: "fadd (8373880557142015 / 281474976710656) (8373880557142015 / 281474976710656) = 8373880557142015 / 140737488355328"
    unfolding fadd_def using fl_eqI[of "1 / 2 ^ 47" "-47" "8373880557142015 / 140737488355328" 8373880557142015] by simp
  have P: "fmul (of_int 85) (3602879701896397 / 18014398509481984) = 17"
    unfolding fmul_def using fl_eqI[of "1 / 2 ^ 48" "-48" "306244774661193745 / 18014398509481984" 4785074604081152] by simp
  have S2: "fadd (8373880557142015 / 140737488355328) (17) = 153 / 2"
    unfolding fadd_def using fl_eqI_tie[of "1 / 2 ^ 46" "-46" "10766417859182591 / 140737488355328" 5383208929591296] by simp
  have Q: "fmul (of_int 85) (3602879701896397 / 36028797018963968) = 17 / 2"
    unfolding fmul_def using fl_eqI[of "1 / 2 ^ 49" "-49" "306244774661193745 / 36028797018963968" 4785074604081152] by simp
  have S3: "fadd (153 / 2) (17 / 2) = 85"
    unfolding fadd_def using fl_eqI[of "1 / 2 ^ 46" "-46" "85" 5981343255101440] by simp
  show ?thesis
    unfolding weighted_sum_def fl_weight_35 fl_weight_20 fl_weight_10 A S1 P S2 Q S3
    by (simp add: py_int_of_float_def floor_eq_iff)
qed

lemma weighted_sum_diag_90: "py_int_of_float (weighted_sum 90 90 90 90) = 90"
proof -
  have A: "fmul (of_int 90) (3152519739159347 / 9007199254740992) = 8866461766385663 / 281474976710656"
    unfolding fmul_def using fl_eqI[of "1 / 2 ^ 48" "-48" "141863388262170615 / 4503599627370496" 8866461766385663] by simp
  have S1: "fadd (8866461766385663 / 281474976710656) (8866461766385663 / 281474976710656) = 8866461766385663 / 140737488355328"
    unfolding fadd_def using fl_eqI[of "1 / 2 ^ 47" "-47" "8866461766385663 / 140737488355328" 8866461766385663] by simp
  have P: "fmul (of_int 90) (3602879701896397 / 18014398509481984) = 18"
    unfolding fmul_def using fl_eqI[of "1 / 2 ^ 48" "-48" "162129586585337865 / 9007199254740992" 5066549580791808] by simp
  have S2: "fadd (8866461766385663 / 140737488355328) (18) = 81"
    unfolding fadd_def using fl_eqI_tie[of "1 / 2 ^ 46" "-46" "11399736556781567 / 140737488355328" 5699868278390784] by simp
  have Q: "fmul (of_int 90) (3602879701896397 / 36028797018963968) = 9"
    unfolding fmul_def using fl_eqI[of "1 / 2 ^ 49" "-49" "162129586585337865 / 18014398509481984" 5066549580791808] by simp
  have S3: "fadd (81) (9) = 90"
    unfolding fadd_def using fl_eqI[of "1 / 2 ^ 46" "-46" "90" 6333186975989760] by simp
  show ?thesis
    unfolding weighted_sum_def fl_weight_35 fl_weight_20 fl_weight_10 A S1 P S2 Q S3
    by (simp add: py_int_of_float_def floor_eq_iff)
qed

lemma weighted_sum_diag_100: "py_int_of_float (weighted_sum 100 100 100 100) = 100"
proof -
  have A: "fmul (of_int 100) (3152519739159347 / 9007199254740992) = 35"
    unfolding fmul_def using fl_eqI[of "1 / 2 ^ 47" "-47" "78812993478983675 / 2251799813685248" 4925812092436480] by simp
  have S1: "fadd (35) (35) = 70"
    unfolding fadd_def using fl_eqI[of "1 / 2 ^ 46" "-46" "70" 4925812092436480] by simp
  have P: "fmul (of_int 100) (3602879701896397 / 18014398509481984) = 20"
    unfolding fmul_def using fl_eqI[of "1 / 2 ^ 48" "-48" "90071992547409925 / 4503599627370496" 5629499534213120] by simp
  have S2: "fadd (70) (20) = 90"
    unfolding fadd_def using fl_eqI[of "1 / 2 ^ 46" "-46" "90" 6333186975989760] by simp
  have Q: "fmul (of_int 100) (3602879701896397 / 36028797018963968) = 10"
    unfolding fmul_def using fl_eqI[of "1 / 2 ^ 49" "-49" "90071992547409925 / 9007199254740992" 5629499534213120] by simp
  have S3: "fadd (90) (10) = 100"
    unfolding fadd_def using fl_eqI[of "1 / 2 ^ 46" "-46" "100" 7036874417766400] by simp
  show ?thesis
    unfolding weighted_sum_def fl_weight_35 fl_weight_20 fl_weight_10 A S1 P S2 Q S3
    by (simp add: py_int_of_float_def floor_eq_iff)
qed

lemma weighted_sum_85_45_60_65: "py_int_of_float (weighted_sum 85 45 60 65) = 63"
proof -
  have A: "fmul (of_int 85) (3152519739159347 / 9007199254740992) = 8373880557142015 / 281474976710656"
    unfolding fmul_def using fl_eqI[of "1 / 2 ^ 48" "-48" "267964177828544495 / 9007199254740992" 8373880557142015] by simp
  have B: "fmul (of_int 45) (3152519739159347 / 9007199254740992) = 8866461766385663 / 562949953421312"
    unfolding fmul_def using fl_eqI[of "1 / 2 ^ 49" "-49" "141863388262170615 / 9007199254740992" 8866461766385663] by simp
  have S1: "fadd (8373880557142015 / 281474976710656) (8866461766385663 / 562949953421312) = 6403555720167423 / 140737488355328"
    unfolding fadd_def using fl_eqI[of "1 / 2 ^ 47" "-47" "25614222880669693 / 562949953421312" 6403555720167423] by simp
  have P: "fmul (of_int 60) (3602879701896397 / 18014398509481984) = 12"
    unfolding fmul_def using fl_eqI[of "1 / 2 ^ 49" "-49" "54043195528445955 / 4503599627370496" 6755399441055744] by simp
  have S2: "fadd (6403555720167423 / 140737488355328) (12) = 8092405580431359 / 140737488355328"
    unfolding fadd_def using fl_eqI[of "1 / 2 ^ 47" "-47" "8092405580431359 / 140737488355328" 8092405580431359] by simp
  have Q: "fmul (of_int 65) (3602879701896397 / 36028797018963968) = 13 / 2"
    unfolding fmul_def using fl_eqI[of "1 / 2 ^ 50" "-50" "234187180623265805 / 36028797018963968" 7318349394477056] by simp
  have S3: "fadd (8092405580431359 / 140737488355328) (13 / 2) = 9007199254740991 / 140737488355328"
    unfolding fadd_def using fl_eqI[of "1 / 2 ^ 47" "-47" "9007199254740991 / 140737488355328" 9007199254740991] by simp
  show ?thesis
    unfolding weighted_sum_def fl_weight_35 fl_weight_20 fl_weight_10 A B S1 P S2 Q S3
    by (simp add: py_int_of_float_def floor_eq_iff)
qed

section \<open>The scores\<close>

lemma technical_points_vals:
  "max 0 (technical_points t) \<in> {20, 30, 35, 45, 50, 55, 60, 65, 70, 75, 85, 90, 100}"
  by (simp add: technical_points_def)

lemma points_ranges:
  "0 \<le> max 0 (technical_points t)" "max 0 (technical_points t) \<le> 100"
  "0 \<le> max 0 (content_points m c)" "max 0 (content_points m c) \<le> 100"
  "0 \<le> max 0 (perf_points t)" "max 0 (perf_points t) \<le> 100"
  "0 \<le> max 0 (access_points m i)" "max 0 (access_points m i) \<le> 100"
  by (simp_all add: technical_points_def content_points_def perf_points_def access_points_def min_def)

lemma weighted_sum_diag:
  assumes "s \<in> {20, 30, 35, 45, 50, 55, 60, 65, 70, 75, 85, 90, 100}"
  shows "py_int_of_float (weighted_sum s s s s) = s"
  using assms weighted_sum_diag_20 weighted_sum_diag_30 weighted_sum_diag_35 weighted_sum_diag_45
    weighted_sum_diag_50 weighted_sum_diag_55 weighted_sum_diag_60 weighted_sum_diag_65
    weighted_sum_diag_70 weighted_sum_diag_75 weighted_sum_diag_85 weighted_sum_diag_90
    weighted_sum_diag_100
  by blast

lemma overall_upper:
  assumes r: "0 \<le> t" "t \<le> 100" "0 \<le> c" "c \<le> 100" "0 \<le> p" "p \<le> 100" "0 \<le> a" "a \<le> 100"
    and M: "t \<le> M" "c \<le> M" "p \<le> M" "a \<le> M"
  shows "py_int_of_float (weighted_sum t c p a) \<le> M"
proof -
  let ?x = "weighted_sum t c p a"
  have x0: "0 \<le> ?x" by (rule weighted_sum_close(3)[OF r])
  have "(of_int t :: rat) \<le> of_int M" "(of_int c :: rat) \<le> of_int M"
    "(of_int p :: rat) \<le> of_int M" "(of_int a :: rat) \<le> of_int M"
    using M by simp_all
  then have "weighted_average t c p a \<le> of_int M"
    unfolding weighted_average_def by linarith
  then have "?x < of_int (M + 1)" using weighted_sum_close(1)[OF r] by simp
  then have "\<lfloor>?x\<rfloor> < M + 1" by (simp only: floor_less_iff)
  then show ?thesis using x0 by (simp add: py_int_of_float_def)
qed

lemma overall_lower:
  assumes r: "0 \<le> t" "t \<le> 100" "0 \<le> c" "c \<le> 100" "0 \<le> p" "p \<le> 100" "0 \<le> a" "a \<le> 100"
    and m: "m \<le> t" "m \<le> c" "m \<le> p" "m \<le> a"
    and d: "t \<in> {20, 30, 35, 45, 50, 55, 60, 65, 70, 75, 85, 90, 100}"
  shows "m \<le> py_int_of_float (weighted_sum t c p a)"
proof (cases "t = c \<and> c = p \<and> p = a")
  case True
  then show ?thesis using weighted_sum_diag[OF d] m by simp
next
  case False
  let ?x = "weighted_sum t c p a"
  let ?m = "min t (min c (min p a))"
  have x0: "0 \<le> ?x" by (rule weighted_sum_close(3)[OF r])
  have mm: "m \<le> ?m" using m by simp
  have ge: "?m \<le> t" "?m \<le> c" "?m \<le> p" "?m \<le> a" by simp_all
  have "?m + 1 \<le> t \<or> ?m + 1 \<le> c \<or> ?m + 1 \<le> p \<or> ?m + 1 \<le> a"
    using False by linarith
  then have "of_int ?m + 1 / 10 \<le> weighted_average t c p a"
  proof (elim disjE)
    assume "?m + 1 \<le> t"
    then have "(of_int ?m :: rat) + 1 \<le> of_int t" by (metis of_int_1 of_int_add of_int_le_iff)
    moreover have "(of_int ?m :: rat) \<le> of_int c" "(of_int ?m :: rat) \<le> of_int p"
      "(of_int ?m :: rat) \<le> of_int a" using ge by (simp_all only: of_int_le_iff)
    ultimately show ?thesis unfolding weighted_average_def by linarith
  next
    assume "?m + 1 \<le> c"
    then have "(of_int ?m :: rat) + 1 \<le> of_int c" by (metis of_int_1 of_int_add of_int_le_iff)
    moreover have "(of_int ?m :: rat) \<le> of_int t" "(of_int ?m :: rat) \<le> of_int p"
      "(of_int ?m :: rat) \<le> of_int a" using ge by (simp_all only: of_int_le_iff)
    ultimately show ?thesis unfolding weighted_average_def by linarith
  next
    assume "?m + 1 \<le> p"
    then have "(of_int ?m :: rat) + 1 \<le> of_int p" by (metis of_int_1 of_int_add of_int_le_iff)
    moreover have "(of_int ?m :: rat) \<le> of_int t" "(of_int ?m :: rat) \<le> of_int c"
      "(of_int ?m :: rat) \<le> of_int a" using ge by (simp_all only: of_int_le_iff)
    ultimately show ?thesis unfolding weighted_average_def by linarith
  next
    assume "?m + 1 \<le> a"
    then have "(of_int ?m :: rat) + 1 \<le> of_int a" by (metis of_int_1 of_int_add of_int_le_iff)
    moreover have "(of_int ?m :: rat) \<le> of_int t" "(of_int ?m :: rat) \<le> of_int c"
      "(of_int ?m :: rat) \<le> of_int p" using ge by (simp_all only: of_int_le_iff)
    ultimately show ?thesis unfolding weighted_average_def by linarith
  qed
  then have "of_int ?m \<le> ?x" using weighted_sum_close(2)[OF r] by linarith
  then have "?m \<le> \<lfloor>?x\<rfloor>" by (simp only: le_floor_iff)
  with mm have "m \<le> \<lfloor>?x\<rfloor>" by (rule order_trans)
  then show ?thesis using x0 by (simp add: py_int_of_float_def)
qed

lemma overall_floor:
  assumes r: "0 \<le> t" "t \<le> 100" "0 \<le> c" "c \<le> 100" "0 \<le> p" "p \<le> 100" "0 \<le> a" "a \<le> 100"
  defines "E \<equiv> weighted_average t c p a"
  shows "py_int_of_float (weighted_sum t c p a) = \<lfloor>E\<rfloor>
       \<or> py_int_of_float (weighted_sum t c p a) = \<lfloor>E\<rfloor> - 1 \<and> of_int \<lfloor>E\<rfloor> = E"
proof -
  let ?x = "weighted_sum t c p a"
  define k where "k = \<lfloor>E\<rfloor>"
  define N where "N = 7 * t + 7 * c + 4 * p + 2 * a"
  have x0: "0 \<le> ?x" by (rule weighted_sum_close(3)[OF r])
  have up: "?x \<le> E + 1 / 500" and lo: "E - 1 / 500 \<le> ?x"
    unfolding E_def by (rule weighted_sum_close(1)[OF r], rule weighted_sum_close(2)[OF r])
  have NE: "(of_int N :: rat) = 20 * E"
    unfolding N_def E_def weighted_average_def by simp
  have k1: "of_int k \<le> E" and k2: "E < of_int k + 1" unfolding k_def by linarith+
  have px: "py_int_of_float ?x = \<lfloor>?x\<rfloor>" using x0 by (simp add: py_int_of_float_def)
  show ?thesis
  proof (cases "of_int k = E")
    case True
    have "of_int (k - 1) \<le> ?x" using lo True by simp
    then have a: "k - 1 \<le> \<lfloor>?x\<rfloor>" by (simp only: le_floor_iff)
    have "?x < of_int (k + 1)" using up True by simp
    then have b: "\<lfloor>?x\<rfloor> < k + 1" by (simp only: floor_less_iff)
    show ?thesis using a b True unfolding px k_def[symmetric] by linarith
  next
    case False
    then have "of_int k < E" using k1 by linarith
    then have "(of_int (20 * k) :: rat) < of_int N" unfolding NE by simp
    then have "20 * k < N" by (simp only: of_int_less_iff)
    then have "20 * k + 1 \<le> N" by linarith
    then have "(of_int (20 * k + 1) :: rat) \<le> of_int N" by (simp only: of_int_le_iff)
    then have l: "of_int k + 1 / 20 \<le> E" unfolding NE by simp
    have "(of_int N :: rat) < of_int (20 * k + 20)" unfolding NE using k2 by simp
    then have "N < 20 * k + 20" by (simp only: of_int_less_iff)
    then have "N \<le> 20 * k + 19" by linarith
    then have "(of_int N :: rat) \<le> of_int (20 * k + 19)" by (simp only: of_int_le_iff)
    then have u: "E \<le> of_int k + 19 / 20" unfolding NE by simp
    have "of_int k \<le> ?x" "?x < of_int k + 1" using l u lo up by linarith+
    then have "\<lfloor>?x\<rfloor> = k" by (rule floor_unique)
    then show ?thesis unfolding px k_def[symmetric] by simp
  qed
qed

text \<open>
  Claim C1.  Whatever the analysis results are, each of the four category scores computed by
  \<open>_calculate_scores\<close> and the overall score lie between 0 and 100.  Each category starts
  at 100 and is only lowered (its points never exceed 100), and the score is the points
  clamped at zero.
\<close>

theorem calculate_scores_in_range:
  "(let s = calculate_scores m t c i iss in
      0 \<le> technical_score s \<and> technical_score s \<le> 100 \<and>
      0 \<le> content_score s \<and> content_score s \<le> 100 \<and>
      0 \<le> performance_score s \<and> performance_score s \<le> 100 \<and>
      0 \<le> accessibility_score s \<and> accessibility_score s \<le> 100 \<and>
      0 \<le> overall_score s \<and> overall_score s \<le> 100 \<and>
      technical_score s = max 0 (technical_points t) \<and> technical_points t \<le> 100 \<and>
      content_score s = max 0 (content_points m c) \<and> content_points m c \<le> 100 \<and>
      performance_score s = max 0 (perf_points t) \<and> perf_points t \<le> 100 \<and>
      accessibility_score s = max 0 (access_points m i) \<and> access_points m i \<le> 100)"
proof -
  let ?T = "max 0 (technical_points t)" and ?C = "max 0 (content_points m c)"
  let ?P = "max 0 (perf_points t)" and ?A = "max 0 (access_points m i)"
  note r = points_ranges
  have hi: "py_int_of_float (weighted_sum ?T ?C ?P ?A) \<le> 100"
    by (rule overall_upper) (use r in simp_all)
  have "0 \<le> weighted_sum ?T ?C ?P ?A"
    by (rule weighted_sum_close(3)) (use r in simp_all)
  then have lo: "0 \<le> py_int_of_float (weighted_sum ?T ?C ?P ?A)"
    by (simp add: py_int_of_float_def)
  have pts: "technical_points t \<le> 100" "content_points m c \<le> 100"
    "perf_points t \<le> 100" "access_points m i \<le> 100"
    using r by simp_all
  show ?thesis
    unfolding calculate_scores_def Let_def using r hi lo pts by simp
qed

text \<open>
  Claim C5.  The code calls the overall score the weighted average of the four category
  scores, with weights 0.35, 0.35, 0.20 and 0.10.  For a page served over HTTPS with status
  200 in 4000 ms, 1500 KB, with a title, no description, two H1 headings, 100 words and
  seven images without alt text, the category scores are 85, 45, 60 and 65.  Their weighted
  average is exactly 64; the sum of the four products in double precision falls just below
  64, and the overall score that \<open>_calculate_scores\<close> returns is 63.
\<close>

theorem overall_score_misses_weighted_average:
  "(let s = calculate_scores
       \<lparr>title = Some ''Home'', meta_description = None, h1_tags = [''a'', ''b''],
        canonical_url = None, robots_meta = None\<rparr>
       \<lparr>http_status = 200, has_ssl = True, page_size_kb = 1500, load_time_ms = 4000,
        is_mobile_friendly = True\<rparr>
       \<lparr>word_count = 100, heading_counts = []\<rparr>
       \<lparr>image_count = 7, images_without_alt = 7, potentially_large_images = 0\<rparr>
       \<lparr>critical_issues = 0, high_issues = 3, medium_issues = 1, low_issues = 1,
        critical_list = [], high_list = [], medium_list = [], low_list = []\<rparr>
    in weighted_average (technical_score s) (content_score s) (performance_score s)
         (accessibility_score s) = 64
       \<and> overall_score s = 63
       \<and> of_int (overall_score s) \<noteq> weighted_average (technical_score s) (content_score s)
            (performance_score s) (accessibility_score s))"
  using weighted_sum_85_45_60_65
  by (simp add: calculate_scores_def technical_points_def content_points_def perf_points_def
      access_points_def weighted_average_def)

text \<open>
  The consequence drawn from the weighted average does hold of the code: the overall score
  always lies between the minimum and the maximum of the four category scores.  It is
  the integer part of the exact weighted average or falls one short of it.
\<close>

lemma overall_score_between_min_and_max:
  "(let s = calculate_scores m t c i iss;
        E = weighted_average (technical_score s) (content_score s) (performance_score s)
              (accessibility_score s)
    in weighted_average 1 1 1 1 = 1
       \<and> Min {technical_score s, content_score s, performance_score s, accessibility_score s}
            \<le> overall_score s
       \<and> overall_score s
            \<le> Max {technical_score s, content_score s, performance_score s, accessibility_score s}
       \<and> (overall_score s = \<lfloor>E\<rfloor> \<or> overall_score s = \<lfloor>E\<rfloor> - 1 \<and> of_int \<lfloor>E\<rfloor> = E))"
proof -
  define T where "T = max 0 (technical_points t)"
  define C where "C = max 0 (content_points m c)"
  define P where "P = max 0 (perf_points t)"
  define A where "A = max 0 (access_points m i)"
  define ov where "ov = py_int_of_float (weighted_sum T C P A)"
  have r: "0 \<le> T" "T \<le> 100" "0 \<le> C" "C \<le> 100" "0 \<le> P" "P \<le> 100" "0 \<le> A" "A \<le> 100"
    unfolding T_def C_def P_def A_def by (rule points_ranges)+
  have d: "T \<in> {20, 30, 35, 45, 50, 55, 60, 65, 70, 75, 85, 90, 100}"
    unfolding T_def by (rule technical_points_vals)
  have w: "weighted_average 1 1 1 1 = 1" by (simp add: weighted_average_def)
  have lo: "Min {T, C, P, A} \<le> ov"
    unfolding ov_def by (rule overall_lower[OF r _ _ _ _ d]) simp_all
  have hi: "ov \<le> Max {T, C, P, A}"
    unfolding ov_def by (rule overall_upper[OF r]) simp_all
  have fl: "ov = \<lfloor>weighted_average T C P A\<rfloor>
      \<or> ov = \<lfloor>weighted_average T C P A\<rfloor> - 1
        \<and> of_int \<lfloor>weighted_average T C P A\<rfloor> = weighted_average T C P A"
    unfolding ov_def by (rule overall_floor[OF r])
  have cs: "calculate_scores m t c i iss =
      \<lparr>overall_score = ov, technical_score = T, content_score = C,
       performance_score = P, accessibility_score = A\<rparr>"
    by (simp add: calculate_scores_def Let_def T_def C_def P_def A_def ov_def)
  show ?thesis
    unfolding cs Let_def using w lo hi fl by simp
qed

section \<open>The credit service\<close>

lemmas io_defs = io_try_def io_bind_def io_return_def io_raise_def io_lift_def
lemmas db_defs = select_profile_def update_profile_def insert_credit_transaction_def
  insert_ai_usage_def insert_scan_def update_scan_def supabase_execute_def



lemmas ai_defs = generate_seo_audit_def generate_keyword_research_def generate_seo_roadmap_def
  check_credits_def deduct_credits_def log_ai_usage_def call_model_def
  parse_audit_response_def credit_cost_def CREDIT_COSTS_def extract_json_from_response_def

text \<open>
  The update in \<open>deduct_credits\<close> cannot be encoded, so it raises before anything is sent:
  the function returns \<open>False\<close> or, never, \<open>True\<close>, and changes neither table.
\<close>

lemma deduct_credits_run:
  assumes "deduct_credits user_id amount operation_type scan_id w = (r, w')"
  shows "r = Inr False \<and> profiles w' = profiles w
       \<and> credit_transactions w' = credit_transactions w
       \<and> model_calls w' = model_calls w \<and> ai_usage w' = ai_usage w"
  using assms unfolding deduct_credits_def io_defs db_defs Let_def
  by (auto split: list.splits option.splits if_splits)

text \<open>
  Claim C2.  For a user whose stored balance is not negative, \<open>deduct_credits\<close> leaves the
  balance not negative.  With a balance below the amount it returns \<open>False\<close> and leaves the
  profiles and the ledger of credit transactions as they were; so an update of the balance
  and a transaction record can be there only when the balance is at least the amount.  It
  never raises, and it leaves every other user's row alone.
\<close>

theorem deduct_credits_keeps_balance_nonnegative:
  assumes run: "deduct_credits user_id amount operation_type scan_id w = (r, w')"
    and row: "profiles w user_id = Some p"
    and nonneg: "0 \<le> credits_balance p"
  shows "(\<exists>p'. profiles w' user_id = Some p' \<and> 0 \<le> credits_balance p')
       \<and> (\<forall>u. u \<noteq> user_id \<longrightarrow> profiles w' u = profiles w u)
       \<and> (credits_balance p < amount
            \<longrightarrow> r = Inr False \<and> profiles w' = profiles w
                \<and> credit_transactions w' = credit_transactions w)
       \<and> (r = Inr True \<or> r = Inr False)"
  using run row nonneg
  unfolding deduct_credits_def io_defs db_defs Let_def
  by (auto split: list.splits option.splits if_splits)

theorem deduct_credits_keeps_balance_nonnegative_witness:
  "profiles example_world ''u1''
     = Some \<lparr>monthly_scan_limit = 10, monthly_scans_used = 3, credits_balance = 120\<rparr>
   \<and> (0::int) \<le> 120 \<and> (120::int) < 500
   \<and> fst (deduct_credits ''u1'' 500 ''seo_audit'' None example_world) = Inr False
   \<and> map_option credits_balance
        (profiles (snd (deduct_credits ''u1'' 500 ''seo_audit'' None example_world)) ''u1'')
       = Some 120
   \<and> credit_transactions (snd (deduct_credits ''u1'' 500 ''seo_audit'' None example_world)) = []"
  using deduct_credits_keeps_balance_nonnegative
    [of "''u1''" 500 "''seo_audit''" None example_world
        "fst (deduct_credits ''u1'' 500 ''seo_audit'' None example_world)"
        "snd (deduct_credits ''u1'' 500 ''seo_audit'' None example_world)"
        "\<lparr>monthly_scan_limit = 10, monthly_scans_used = 3, credits_balance = 120\<rparr>"]
  by (simp add: ai_defs io_defs db_defs example_world_def)

text \<open>
  Claim C7 holds of the refusal and fails of the charge.  A user with 120 credits asks for
  an audit (cost 100), for keywords (cost 50) and for a roadmap (cost 120); no Supabase
  request fails and the model answers.  Each operation returns its result; after each the
  user still has 120 credits and the ledger is empty, because the update in
  \<open>deduct_credits\<close> raises \<open>TypeError\<close> on its payload and the operation goes on.  The
  log of AI usage records 100 credits as consumed.
\<close>

theorem ai_operations_return_result_without_charge:
  "map_option credits_balance (profiles example_world ''u1'') = Some 120
   \<and> faults example_world = []
   \<and> map_of CREDIT_COSTS ''seo_audit'' = Some 100
   \<and> map_of CREDIT_COSTS ''keyword_research'' = Some 50
   \<and> map_of CREDIT_COSTS ''roadmap'' = Some 120
   \<and> fst (generate_seo_audit example_env ''u1'' ''s1'' (Inr ''prompt'') example_world)
     = Inr (Some \<lparr>full_text = ''## Summary'', sections = [(''Summary'', [])],
                   generated_at = 1000\<rparr>)
   \<and> map_option credits_balance
        (profiles (snd (generate_seo_audit example_env ''u1'' ''s1'' (Inr ''prompt'')
           example_world)) ''u1'') = Some 120
   \<and> credit_transactions (snd (generate_seo_audit example_env ''u1'' ''s1'' (Inr ''prompt'')
           example_world)) = []
   \<and> map au_credits_consumed (ai_usage (snd (generate_seo_audit example_env ''u1'' ''s1''
           (Inr ''prompt'') example_world))) = [100]
   \<and> fst (generate_keyword_research example_env ''u1'' (Inr ''prompt'') example_world)
     = Inr (Some (Json ''## Summary''))
   \<and> map_option credits_balance
        (profiles (snd (generate_keyword_research example_env ''u1'' (Inr ''prompt'')
           example_world)) ''u1'') = Some 120
   \<and> fst (generate_seo_roadmap example_env ''u1'' ''s1'' (Inr ''prompt'') example_world)
     = Inr (Some \<lparr>full_text = ''## Summary'', sections = [(''Summary'', [])],
                   generated_at = 1000\<rparr>)
   \<and> map_option credits_balance
        (profiles (snd (generate_seo_roadmap example_env ''u1'' ''s1'' (Inr ''prompt'')
           example_world)) ''u1'') = Some 120"
  by (simp add: ai_defs io_defs db_defs example_world_def example_env_def startswith_def
      py_strip_def is_space_def strip_suffix_fence_def)

section \<open>The scanner\<close>

subsection \<open>Normalising the URL\<close>




lemma http_not_https: "\<not> startswith (''http://'' @ r) ''https://''"
  by (simp add: startswith_def)









subsection \<open>Fetching the page\<close>

lemmas scan_defs = scan_url_def scan_try_body_def scan_handler_def score_and_store_def
  check_scan_limits_def create_scan_record_def update_scan_status_def mark_scan_failed_def
  increment_scan_counter_def now_def enter_def store_scan_data_def

lemma scan_url_page_too_large:
  assumes norm: "normalize_url ev url0 = Some url"
    and up: "urlparse ev url = Inr (sch, netloc)"
    and row: "profiles w user_id = Some p"
    and lim: "monthly_scans_used p < monthly_scan_limit p"
    and nf: "faults w = []"
    and get: "http_get ev url = Inr resp"
    and hdr: "headers resp ''content-length'' = Some h" "h \<noteq> []" "py_int ev h = Some n"
      "n > MAX_PAGE_SIZE"
  shows "fst (scan_url ev user_id url0 w) = Inr None"
    and "scans (snd (scan_url ev user_id url0 w)) = scans w @
          [\<lparr>row_user_id = user_id, row_url = url, row_domain = netloc, row_status = ''failed'',
            row_started_at = clock w,
            row_error_message =
              Some (''Failed to fetch page: HTTP '' @ str_of_int (status_code resp)),
            row_completed_at = Some (clock w + elapsed_ms resp), row_data = None\<rparr>]"
  using assms
  by (simp_all add: scan_defs io_defs db_defs fetch_page_def Let_def nth_append)


text \<open>
  Claim C9.  When the response carries a \<open>Content-Length\<close> header whose integer value is
  above \<open>MAX_PAGE_SIZE\<close> (10 MiB), \<open>_fetch_page\<close> returns \<open>None\<close> for the content,
  together with the status and the load time; a response without the header is returned
  in full, whatever its length.  In the enclosing scan (a valid URL, a user below the limit,
  no failing Supabase request) such a page leaves the scan record marked \<open>failed\<close>, and
  \<open>scan_url\<close> returns \<open>None\<close>.
\<close>

theorem fetch_page_content_length:
  assumes get: "http_get ev url = Inr resp"
  shows "(\<forall>h n. headers resp ''content-length'' = Some h \<and> h \<noteq> [] \<and> py_int ev h = Some n
              \<and> n > MAX_PAGE_SIZE
            \<longrightarrow> fst (fetch_page ev url w) = Inr (None, status_code resp, elapsed_ms resp))
       \<and> (\<forall>txt. headers resp ''content-length'' = None \<and> text_of resp = Inr txt
            \<longrightarrow> fst (fetch_page ev url w) = Inr (Some txt, status_code resp, elapsed_ms resp))
       \<and> MAX_PAGE_SIZE = 10485760
       \<and> (\<forall>h n url0 user_id p sch netloc.
              headers resp ''content-length'' = Some h \<and> h \<noteq> [] \<and> py_int ev h = Some n
              \<and> n > MAX_PAGE_SIZE
              \<and> normalize_url ev url0 = Some url \<and> urlparse ev url = Inr (sch, netloc)
              \<and> profiles w user_id = Some p \<and> monthly_scans_used p < monthly_scan_limit p
              \<and> faults w = []
            \<longrightarrow> fst (scan_url ev user_id url0 w) = Inr None
                \<and> scans (snd (scan_url ev user_id url0 w)) = scans w @
                    [\<lparr>row_user_id = user_id, row_url = url, row_domain = netloc,
                      row_status = ''failed'', row_started_at = clock w,
                      row_error_message =
                        Some (''Failed to fetch page: HTTP '' @ str_of_int (status_code resp)),
                      row_completed_at = Some (clock w + elapsed_ms resp),
                      row_data = None\<rparr>])"
proof -
  have a: "\<forall>h n. headers resp ''content-length'' = Some h \<and> h \<noteq> [] \<and> py_int ev h = Some n
              \<and> n > MAX_PAGE_SIZE
            \<longrightarrow> fst (fetch_page ev url w) = Inr (None, status_code resp, elapsed_ms resp)"
    using get by (auto simp: fetch_page_def Let_def)
  have b: "\<forall>txt. headers resp ''content-length'' = None \<and> text_of resp = Inr txt
            \<longrightarrow> fst (fetch_page ev url w) = Inr (Some txt, status_code resp, elapsed_ms resp)"
    using get by (auto simp: fetch_page_def Let_def)
  have c: "MAX_PAGE_SIZE = 10485760" by (simp add: MAX_PAGE_SIZE_def)
  show ?thesis
    using a b c scan_url_page_too_large[OF _ _ _ _ _ get] by blast
qed

theorem fetch_page_content_length_witness:
  "http_get example_env_large_page ''https://example.com'' = Inr large_response
   \<and> headers large_response ''content-length'' = Some ''20000000''
   \<and> py_int example_env_large_page ''20000000'' = Some 20000000
   \<and> fst (fetch_page example_env_large_page ''https://example.com'' example_world)
       = Inr (None, 200, 4000)
   \<and> fst (scan_url example_env_large_page ''u1'' ''example.com'' example_world) = Inr None
   \<and> map row_status
        (scans (snd (scan_url example_env_large_page ''u1'' ''example.com'' example_world)))
       = [''failed'']"
  using fetch_page_content_length
    [of example_env_large_page "''https://example.com''" large_response example_world]
  by (simp add: example_env_large_page_def example_env_def large_response_def example_int_def
      is_digit_def MAX_PAGE_SIZE_def normalize_url_def example_urlparse_def startswith_def
      example_world_def)

subsection \<open>Failures of a scan\<close>

text \<open>
  Claim C3 fails where the scan record is created.  The URL is valid and the user is below
  the limit; the request that inserts the scan record raises.  \<open>_create_scan_record\<close>
  raises the exception again, \<open>scan_url\<close> calls it outside its \<open>try\<close>, and the exception
  reaches the caller instead of \<open>None\<close>.
\<close>

theorem scan_url_propagates_insert_failure:
  "normalize_url example_env ''example.com'' = Some ''https://example.com''
   \<and> map_option (\<lambda>p. monthly_scans_used p < monthly_scan_limit p)
        (profiles world_second_request_fails ''u1'') = Some True
   \<and> fst (scan_url example_env ''u1'' ''example.com'' world_second_request_fails)
       = Inl (OtherException ''connection lost'')"
  by (simp add: scan_defs io_defs db_defs normalize_url_def example_env_def
      example_urlparse_def startswith_def world_second_request_fails_def example_world_def)

subsection \<open>The document after \<open>_analyze_content\<close>\<close>

lemma length_concat_map: "length (concat (map f xs)) = sum_list (map (\<lambda>x. length (f x)) xs)"
  by (induction xs) simp_all

lemma concat_map_concat: "concat (map f (concat xss)) = concat (map (\<lambda>xs. concat (map f xs)) xss)"
  by (induction xss) simp_all

lemma filter_concat_map: "filter Q (concat (map f xs)) = concat (map (\<lambda>x. filter Q (f x)) xs)"
  by (induction xs) simp_all

lemma count_after_decompose_node:
  "length (filter (sat P) (concat (map (find_all_node [x]) (decompose_node names t))))
     = count_outside_node names (\<lambda>n a. n = x \<and> P n a) t"
proof (induction t)
  case (Text s)
  show ?case by simp
next
  case (Element n attrs cs)
  have IH: "\<And>c. c \<in> set cs \<Longrightarrow>
      length (filter (sat P) (concat (map (find_all_node [x]) (decompose_node names c))))
        = count_outside_node names (\<lambda>n a. n = x \<and> P n a) c"
    using Element.IH by blast
  have kids: "length (filter (sat P)
        (concat (map (find_all_node [x]) (concat (map (decompose_node names) cs)))))
      = sum_list (map (count_outside_node names (\<lambda>n a. n = x \<and> P n a)) cs)"
  proof -
    have "length (filter (sat P)
        (concat (map (find_all_node [x]) (concat (map (decompose_node names) cs)))))
      = sum_list (map (\<lambda>c. length (filter (sat P)
            (concat (map (find_all_node [x]) (decompose_node names c))))) cs)"
      by (simp add: concat_map_concat filter_concat_map length_concat_map o_def)
    also have "\<dots> = sum_list (map (count_outside_node names (\<lambda>n a. n = x \<and> P n a)) cs)"
      by (rule arg_cong[where f = sum_list], rule map_cong[OF refl]) (rule IH)
    finally show ?thesis .
  qed
  show ?case
  proof (cases "n \<in> set names")
    case True
    then show ?thesis by simp
  next
    case False
    then show ?thesis using kids by simp
  qed
qed

lemma count_after_decompose:
  "length (filter (sat P) (find_all [x] (decompose_all names soup)))
     = count_outside names (\<lambda>n a. n = x \<and> P n a) soup"
proof -
  have "length (filter (sat P) (find_all [x] (decompose_all names soup)))
      = sum_list (map (\<lambda>c. length (filter (sat P)
            (concat (map (find_all_node [x]) (decompose_node names c))))) soup)"
    by (simp add: find_all_def decompose_all_def concat_map_concat filter_concat_map
        length_concat_map o_def)
  also have "\<dots> = count_outside names (\<lambda>n a. n = x \<and> P n a) soup"
    unfolding count_outside_def
    by (rule arg_cong[where f = sum_list], rule map_cong[OF refl])
      (rule count_after_decompose_node)
  finally show ?thesis .
qed

lemma none_left_node:
  "concat (map (find_all_node names) (decompose_node names t)) = []"
proof (induction t)
  case (Text s)
  show ?case by simp
next
  case (Element n attrs cs)
  have "concat (map (find_all_node names) (concat (map (decompose_node names) cs))) = []"
    unfolding concat_map_concat using Element.IH by simp
  then show ?case by simp
qed

lemma none_left: "find_all names (decompose_all names soup) = []"
  unfolding find_all_def decompose_all_def concat_map_concat
  by (simp add: none_left_node)

lemma find_all_named: "t \<in> set (find_all_node [x] u) \<Longrightarrow> \<exists>a cs. t = Element x a cs"
  by (induction u) (auto split: if_splits)

lemma find_all_sat_name:
  "filter (sat (\<lambda>n a. True)) (find_all [x] soup) = find_all [x] soup"
  unfolding find_all_def
  by (rule filter_True) (auto dest!: find_all_named)

lemma find_all_sat_href:
  "filter (\<lambda>t. attr_get t ''href'' \<noteq> None) (find_all [x] soup)
     = filter (sat (\<lambda>n a. map_of a ''href'' \<noteq> None)) (find_all [x] soup)"
  unfolding find_all_def
  by (rule filter_cong[OF refl]) (auto dest!: find_all_named simp: attr_get_def)

text \<open>
  Claim C10.  \<open>_analyze_content\<close> changes the document: afterwards no \<open>script\<close>,
  \<open>style\<close> or \<open>noscript\<close> element is left.  \<open>scan_url\<close> calls \<open>_analyze_images\<close> and
  \<open>_analyze_links\<close> after it, on the changed document, so the image count and the link
  count are those of the elements outside \<open>script\<close>, \<open>style\<close> and \<open>noscript\<close>; the
  metadata, extracted before, is that of the whole document.
\<close>

theorem analyze_content_strips_before_counting:
  assumes "extract_fields ev url status html load_time soup = Inr (md, tech, cont, imgs, lnks, sd)"
  shows "fst (analyze_content soup) = decompose_all [''script'', ''style'', ''noscript''] soup
       \<and> find_all [''script'', ''style'', ''noscript''] (fst (analyze_content soup)) = []
       \<and> imgs = analyze_images ev (fst (analyze_content soup))
       \<and> image_count imgs
           = int (count_outside [''script'', ''style'', ''noscript''] (\<lambda>n a. n = ''img'') soup)
       \<and> link_count lnks
           = int (count_outside [''script'', ''style'', ''noscript'']
                    (\<lambda>n a. n = ''a'' \<and> map_of a ''href'' \<noteq> None) soup)
       \<and> md = extract_metadata soup"
proof -
  let ?names = "[''script'', ''style'', ''noscript'']"
  let ?soup' = "decompose_all ?names soup"
  have ac: "fst (analyze_content soup) = ?soup'"
    by (simp add: analyze_content_def Let_def)
  from assms have md: "md = extract_metadata soup"
    and imgs: "imgs = analyze_images ev ?soup'"
    and lnks: "analyze_links ev ?soup' url = Inr lnks"
    by (auto simp: extract_fields_def analyze_content_def Let_def split: sum.splits)
  have ic: "image_count imgs = int (count_outside ?names (\<lambda>n a. n = ''img'') soup)"
    using count_after_decompose[of "\<lambda>n a. True" "''img''" ?names soup]
    unfolding imgs by (simp add: analyze_images_def Let_def find_all_sat_name)
  have ll: "link_count lnks
           = int (length (filter (\<lambda>t. attr_get t ''href'' \<noteq> None) (find_all [''a''] ?soup')))"
    using lnks unfolding analyze_links_def Let_def
    by (auto split: sum.splits prod.splits)
  have lc: "link_count lnks
           = int (count_outside ?names (\<lambda>n a. n = ''a'' \<and> map_of a ''href'' \<noteq> None) soup)"
    unfolding ll find_all_sat_href
    by (simp only: count_after_decompose)
  show ?thesis using ac md imgs ic lc none_left[of ?names soup] by simp
qed

lemma example_fields:
  "extract_fields example_env ''https://example.com'' 200 ''<html>'' 4000 example_page =
     Inr (\<lparr>title = Some ''Home'', meta_description = None,
            h1_tags = [''Welcome'', ''Enable scripts''], canonical_url = None,
            robots_meta = None\<rparr>,
          \<lparr>http_status = 200, has_ssl = True, page_size_kb = 0,
            load_time_ms = 4000, is_mobile_friendly = False\<rparr>,
          \<lparr>word_count = 3,
            heading_counts = [(''h1'', 1), (''h2'', 0), (''h3'', 0), (''h4'', 0), (''h5'', 0),
              (''h6'', 0)]\<rparr>,
          \<lparr>image_count = 1, images_without_alt = 0, potentially_large_images = 0\<rparr>,
          \<lparr>link_count = 1, internal_links = 1, external_links = 0\<rparr>,
          \<lparr>json_ld = [], has_schema = False\<rparr>)"
  by (simp add: extract_fields_def extract_metadata_def analyze_technical_def
      analyze_content_def analyze_images_def analyze_links_def extract_structured_data_def
      example_env_def example_page_def example_urlparse_def find_all_def decompose_all_def
      find_with_attr_def find_with_rel_def attr_get_def get_text_def soup_text_def
      py_strip_def py_split_def is_space_def startswith_def utf8_len_def lower_char_def
      is_large_def Let_def)

theorem analyze_content_strips_before_counting_witness:
  "extract_fields example_env ''https://example.com'' 200 ''<html>'' 4000 example_page =
     Inr (\<lparr>title = Some ''Home'', meta_description = None,
            h1_tags = [''Welcome'', ''Enable scripts''], canonical_url = None,
            robots_meta = None\<rparr>,
          \<lparr>http_status = 200, has_ssl = True, page_size_kb = 0,
            load_time_ms = 4000, is_mobile_friendly = False\<rparr>,
          \<lparr>word_count = 3,
            heading_counts = [(''h1'', 1), (''h2'', 0), (''h3'', 0), (''h4'', 0), (''h5'', 0),
              (''h6'', 0)]\<rparr>,
          \<lparr>image_count = 1, images_without_alt = 0, potentially_large_images = 0\<rparr>,
          \<lparr>link_count = 1, internal_links = 1, external_links = 0\<rparr>,
          \<lparr>json_ld = [], has_schema = False\<rparr>)
   \<and> length (find_all [''img''] example_page) = 2
   \<and> length (find_all [''a''] example_page) = 2
   \<and> count_outside [''script'', ''style'', ''noscript''] (\<lambda>n a. n = ''img'') example_page = 1
   \<and> count_outside [''script'', ''style'', ''noscript'']
         (\<lambda>n a. n = ''a'' \<and> map_of a ''href'' \<noteq> None) example_page = 1
   \<and> h1_tags (extract_metadata example_page) = [''Welcome'', ''Enable scripts'']"
  using analyze_content_strips_before_counting[OF example_fields] example_fields
  by (simp add: example_page_def find_all_def count_outside_def extract_metadata_def
      get_text_def py_strip_def is_space_def)

subsection \<open>Runs of \<open>scan_url\<close>\<close>







lemma enter_run:
  assumes "enter s w = (r, w')"
  shows "profiles w' = profiles w \<and> trace w' = trace w @ [s] \<and> scans w' = scans w
       \<and> faults w' = faults w \<and> r = Inr ()"
  using assms unfolding enter_def by auto

lemma now_run:
  assumes "now w = (r, w')"
  shows "w' = w"
  using assms unfolding now_def by auto

lemma io_lift_run:
  assumes "io_lift x w = (r, w')"
  shows "w' = w \<and> r = x"
  using assms unfolding io_lift_def by auto











lemma example_env_fields [simp]:
  "urlparse example_env = example_urlparse"
  "http_get example_env = (\<lambda>u. Inr example_response)"
  "parse_html example_env = (\<lambda>h. Inr example_page)"
  by (simp_all add: example_env_def)












end
